theory Spec2Isabelle
  imports Main "HOL-Library.AList" "HOL-Library.Char_ord" "HOL-Library.List_Lexorder"
begin

section \<open>Python strings\<close>

text \<open>
  A Python \<open>str\<close> is modelled as a \<open>string\<close> whose characters are the code points
  below 256.  The predicates below are those of \<open>str.splitlines\<close> and \<open>str.strip\<close>
  on that range.
\<close>

definition is_linebreak :: "char \<Rightarrow> bool" where
  "is_linebreak c =
     (c \<in> set [CHR 0x0A, CHR 0x0B, CHR 0x0C, CHR 0x0D, CHR 0x1C, CHR 0x1D, CHR 0x1E, CHR 0x85])"

definition is_space :: "char \<Rightarrow> bool" where
  "is_space c =
     (c \<in> set [CHR 0x09, CHR 0x0A, CHR 0x0B, CHR 0x0C, CHR 0x0D, CHR 0x1C, CHR 0x1D, CHR 0x1E,
                CHR 0x1F, CHR 0x20, CHR 0x85, CHR 0xA0])"

text \<open>\<open>str.splitlines()\<close>: \<open>cur\<close> is the line being read; CR LF is one boundary; no empty
  last line is produced after a final boundary.\<close>

fun splitlines_from :: "string \<Rightarrow> string \<Rightarrow> string list" where
  "splitlines_from cur [] = (if cur = [] then [] else [cur])"
| "splitlines_from cur (c # cs) =
     (if c = CHR 0x0D then
        (case cs of
           d # ds \<Rightarrow>
             if d = CHR 0x0A then cur # splitlines_from [] ds else cur # splitlines_from [] cs
         | [] \<Rightarrow> cur # splitlines_from [] cs)
      else if is_linebreak c then cur # splitlines_from [] cs
      else splitlines_from (cur @ [c]) cs)"

definition splitlines :: "string \<Rightarrow> string list" where
  "splitlines s = splitlines_from [] s"

text \<open>\<open>str.splitlines(keepends=True)\<close>.\<close>

fun splitlines_keepends_from :: "string \<Rightarrow> string \<Rightarrow> string list" where
  "splitlines_keepends_from cur [] = (if cur = [] then [] else [cur])"
| "splitlines_keepends_from cur (c # cs) =
     (if c = CHR 0x0D then
        (case cs of
           d # ds \<Rightarrow>
             if d = CHR 0x0A then (cur @ [c, d]) # splitlines_keepends_from [] ds
             else (cur @ [c]) # splitlines_keepends_from [] cs
         | [] \<Rightarrow> (cur @ [c]) # splitlines_keepends_from [] cs)
      else if is_linebreak c then (cur @ [c]) # splitlines_keepends_from [] cs
      else splitlines_keepends_from (cur @ [c]) cs)"

definition strip :: "string \<Rightarrow> string" where
  "strip s = rev (dropWhile is_space (rev (dropWhile is_space s)))"

text \<open>\<open>sep.join(xs)\<close>.\<close>

fun join :: "string \<Rightarrow> string list \<Rightarrow> string" where
  "join sep [] = []"
| "join sep [x] = x"
| "join sep (x # y # ys) = x @ sep @ join sep (y # ys)"

text \<open>Case mapping, on the ASCII letters (every key this program produces is ASCII).\<close>

definition ascii_uppercase :: string where
  "ascii_uppercase = ''ABCDEFGHIJKLMNOPQRSTUVWXYZ''"

definition ascii_lowercase :: string where
  "ascii_lowercase = ''abcdefghijklmnopqrstuvwxyz''"

definition is_upper :: "char \<Rightarrow> bool" where
  "is_upper c = (c \<in> set ascii_uppercase)"

definition is_lower :: "char \<Rightarrow> bool" where
  "is_lower c = (c \<in> set ascii_lowercase)"

definition is_digit :: "char \<Rightarrow> bool" where
  "is_digit c = (c \<in> set ''0123456789'')"

definition lower_char :: "char \<Rightarrow> char" where
  "lower_char c =
     (case map_of (zip ascii_uppercase ascii_lowercase) c of Some d \<Rightarrow> d | None \<Rightarrow> c)"

definition upper_char :: "char \<Rightarrow> char" where
  "upper_char c =
     (case map_of (zip ascii_lowercase ascii_uppercase) c of Some d \<Rightarrow> d | None \<Rightarrow> c)"

definition lower :: "string \<Rightarrow> string" where
  "lower s = map lower_char s"

definition capitalize :: "string \<Rightarrow> string" where
  "capitalize s = (case s of [] \<Rightarrow> [] | c # cs \<Rightarrow> upper_char c # map lower_char cs)"

definition startswith :: "string \<Rightarrow> string \<Rightarrow> bool" where
  "startswith s p = (take (length p) s = p)"

definition endswith :: "string \<Rightarrow> string \<Rightarrow> bool" where
  "endswith s p = (length p \<le> length s \<and> drop (length s - length p) s = p)"

section \<open>Exceptions\<close>

text \<open>
  Every raise of the source is a value of \<open>exc\<close>; a function that can raise returns
  \<open>exc + 'a\<close>, together with the state it leaves behind.  The arguments of an exception
  (\<open>e.args\<close>) are kept, since \<open>stage_batches\<close> reads the pull request out of them.
  The classes are those of the modules \<open>exceptions\<close> and \<open>github\<close>:
  \<open>Unmergeable\<close> is a subclass of \<open>exceptions.MergeError\<close> (the handler of
  \<open>stage_batches\<close> tests for it inside \<open>except exceptions.MergeError\<close>), and
  \<open>github.MergeError\<close> and \<open>Mismatch\<close> have handlers of their own in \<open>stage_batch\<close>.
\<close>

datatype pyarg = ArgPR nat | ArgStr string

datatype field_value = VStr string | VInt nat | VBool bool

datatype exc =
    GithubMergeError string
  | MergeError "pyarg list" string
  | Unmergeable "pyarg list"
  | Mismatch "(string \<times> field_value) list" "(string \<times> field_value \<times> field_value) list"
  | AttributeError
  | UnboundLocalError
  | IndexError
  | KeyError
  | MissingError
  | ValueError
  | AssertionError
  | TimeoutError
  | UnicodeDecodeError
  | RemoteError string

section \<open>Data model\<close>

type_synonym sha = string

datatype Method = Merge | Rebase_merge | Rebase_ff | Squash

text \<open>The value of the selection field \<open>merge_method\<close>, as the string the source tests.\<close>

fun method_name :: "Method \<Rightarrow> string" where
  "method_name Merge = ''merge''"
| "method_name Rebase_merge = ''rebase-merge''"
| "method_name Rebase_ff = ''rebase-ff''"
| "method_name Squash = ''squash''"

text \<open>
  A pull request record.  \<open>pr_target\<close>, \<open>pr_repository\<close> and \<open>pr_reviewed_by\<close>
  are record ids; \<open>pr_merge_method = None\<close> is the unset (falsy) selection;
  \<open>pr_commits_map\<close> is the dictionary that the source stores as JSON text.
\<close>

record pull_request =
  pr_id :: nat
  pr_repository :: nat
  pr_number :: nat
  pr_target :: nat
  pr_head :: sha
  pr_label :: string
  pr_priority :: int
  pr_merge_method :: "Method option"
  pr_squash :: bool
  pr_message :: string
  pr_state :: string
  pr_blocked :: bool
  pr_reviewed_by :: "nat option"
  pr_display_name :: string
  pr_commits_map :: "(string \<times> sha) list"

record partner =
  partner_name :: string
  github_login :: string

record batch =
  batch_id :: nat
  batch_target :: nat
  batch_prs :: "nat list"

record split =
  split_id :: nat
  split_batch_ids :: "nat list"

record project =
  project_name :: string
  batch_limit :: nat
  repo_ids :: "nat list"
  github_token :: string

record branch =
  branch_id :: nat
  br_name :: string
  project_id :: nat
  active_staging_id :: "nat option"
  split_ids :: "nat list"

record repository =
  repo_name :: string
  repo_project_id :: nat

text \<open>What the hosting provider reports for one commit of a pull request, and for the
  pull request itself (\<open>gh.commits\<close>, \<open>gh.pr\<close>).\<close>

record identity =
  id_name :: string
  id_email :: "string option"

record prcommit =
  c_sha :: sha
  c_parents :: "sha list"
  c_message :: string
  c_author :: identity
  c_committer :: identity

record prdict =
  pd_commits :: int
  pd_base_ref :: string
  pd_title :: string
  pd_body :: string

text \<open>The state of one repository at the hosting provider, as far as \<open>gh\<close> reads it.\<close>

record remote =
  refs :: "string \<rightharpoonup> sha"
  pulls :: "nat \<rightharpoonup> prdict"
  pull_commits :: "nat \<rightharpoonup> prcommit list"
  users :: "string \<rightharpoonup> string option"
  trees :: "sha \<rightharpoonup> sha"

record notification =
  n_template :: string
  n_repository :: nat
  n_pull_request :: nat
  n_args :: "(string \<times> string) list"

record commit_row =
  commit_id :: nat
  commit_sha :: sha
  to_check :: bool

record staging_record =
  staging_id :: nat
  staging_target :: nat
  staging_batch_ids :: "nat list"
  staging_heads :: "(nat \<times> nat) list"
  staging_commits :: "(nat \<times> nat) list"

text \<open>
  The state the program works on: the remote repositories, the tables of the database,
  the notifications sent so far, the number of HTTP requests made to the
  ref-advertisement endpoint and the number of draws from \<open>os.urandom\<close>.
\<close>

record world =
  remotes :: "nat \<Rightarrow> remote"
  pr_table :: "pull_request list"
  partners :: "nat \<Rightarrow> partner"
  branch_table :: "branch list"
  projects :: "nat \<Rightarrow> project"
  repositories :: "nat \<Rightarrow> repository"
  batch_table :: "batch list"
  split_table :: "split list"
  commit_table :: "commit_row list"
  staging_table :: "staging_record list"
  sent :: "notification list"
  requests :: nat
  draws :: nat

definition browse :: "world \<Rightarrow> nat \<Rightarrow> pull_request option" where
  "browse w i = find (\<lambda>p. pr_id p = i) (pr_table w)"

definition write_pr :: "nat \<Rightarrow> (pull_request \<Rightarrow> pull_request) \<Rightarrow> world \<Rightarrow> world" where
  "write_pr i f w = w\<lparr>pr_table := map (\<lambda>p. if pr_id p = i then f p else p) (pr_table w)\<rparr>"

definition unlink_pr :: "nat \<Rightarrow> world \<Rightarrow> world" where
  "unlink_pr i w = w\<lparr>pr_table := filter (\<lambda>p. pr_id p \<noteq> i) (pr_table w)\<rparr>"

definition get_branch :: "world \<Rightarrow> nat \<Rightarrow> branch option" where
  "get_branch w i = find (\<lambda>b. branch_id b = i) (branch_table w)"

section \<open>Commit messages\<close>

record message =
  body :: string
  headers :: "(string \<times> string) list"

text \<open>What \<open>from_message\<close> and \<open>_build_merge_message\<close> are given: a string, or a pull
  request (whose \<open>message\<close> is then read).\<close>

datatype source = Str string | PR pull_request

text \<open>\<open>Message.__init__\<close> with \<open>__setattr__\<close>: the stored body is always stripped.\<close>

definition Message :: "string \<Rightarrow> (string \<times> string) list \<Rightarrow> message" where
  "Message b hs = \<lparr>body = strip b, headers = hs\<rparr>"

text \<open>
  \<open>BREAK.fullmatch\<close>: up to three spaces, a marker among \<open>* _ -\<close>, then at least two
  more occurrences of the same marker among spaces and tabs.
\<close>

definition BREAK_fullmatch :: "string \<Rightarrow> bool" where
  "BREAK_fullmatch line =
     (length (takeWhile (\<lambda>c. c = CHR '' '') line) \<le> 3 \<and>
      (case dropWhile (\<lambda>c. c = CHR '' '') line of
         [] \<Rightarrow> False
       | c # cs \<Rightarrow>
           c \<in> set ''*_-'' \<and>
           list_all (\<lambda>d. d = c \<or> d = CHR '' '' \<or> d = CHR 0x09) cs \<and>
           2 \<le> count_list cs c))"

text \<open>\<open>SETEX_UNDERLINE.fullmatch\<close>: up to three spaces, one or more of \<open>-\<close> and \<open>=\<close>,
  then spaces only.\<close>

definition SETEX_UNDERLINE_fullmatch :: "string \<Rightarrow> bool" where
  "SETEX_UNDERLINE_fullmatch line =
     (let rest = dropWhile (\<lambda>c. c = CHR '' '') line in
      length (takeWhile (\<lambda>c. c = CHR '' '') line) \<le> 3 \<and>
      takeWhile (\<lambda>c. c \<in> set ''-='') rest \<noteq> [] \<and>
      list_all (\<lambda>c. c = CHR '' '') (dropWhile (\<lambda>c. c \<in> set ''-='') rest))"

text \<open>\<open>HEADER.fullmatch(line).groups()\<close>: a key of letters and hyphens, a colon and a
  space, then any characters but a newline.\<close>

definition is_key_char :: "char \<Rightarrow> bool" where
  "is_key_char c = (is_upper c \<or> is_lower c \<or> c = CHR ''-'')"

definition HEADER_fullmatch :: "string \<Rightarrow> (string \<times> string) option" where
  "HEADER_fullmatch line =
     (let k = takeWhile is_key_char line; rest = dropWhile is_key_char line in
      if k \<noteq> [] \<and> startswith rest '': '' \<and> CHR 0x0A \<notin> set (drop 2 rest)
      then Some (k, drop 2 rest) else None)"

text \<open>The variables of the loop of \<open>from_message\<close>; \<open>body_lines\<close> and \<open>hdrs\<close> are
  the lists \<open>body\<close> and \<open>headers\<close>, in the order of their \<open>append\<close>s.\<close>

record parse_state =
  in_headers :: bool
  maybe_setex :: "string option"
  hdrs :: "(string \<times> string) list"
  body_lines :: "string list"

definition from_message_step :: "bool \<Rightarrow> parse_state \<Rightarrow> string \<Rightarrow> parse_state" where
  "from_message_step handle_break s0 line =
     (let s = (case maybe_setex s0 of
                 None \<Rightarrow> s0
               | Some underline \<Rightarrow>
                   if line \<noteq> [] then s0\<lparr>body_lines := body_lines s0 @ [underline], maybe_setex := None\<rparr>
                   else s0\<lparr>body_lines := [], maybe_setex := None\<rparr>)
      in if line = [] then
           (if \<not> in_headers s \<and> body_lines s \<noteq> [] \<and> last (body_lines s) \<noteq> []
            then s\<lparr>body_lines := body_lines s @ [line]\<rparr> else s)
         else if handle_break \<and> BREAK_fullmatch line then
           (if SETEX_UNDERLINE_fullmatch line then s\<lparr>maybe_setex := Some line\<rparr>
            else s\<lparr>body_lines := []\<rparr>)
         else
           (case HEADER_fullmatch line of
              Some h \<Rightarrow>
                if in_headers s \<or> lower (fst h) = ''co-authored-by''
                then s\<lparr>hdrs := hdrs s @ [h]\<rparr>
                else s\<lparr>body_lines := body_lines s @ [line], in_headers := False\<rparr>
            | None \<Rightarrow> s\<lparr>body_lines := body_lines s @ [line], in_headers := False\<rparr>))"

definition from_message_loop :: "bool \<Rightarrow> string list \<Rightarrow> parse_state" where
  "from_message_loop handle_break lines =
     foldl (from_message_step handle_break)
       \<lparr>in_headers = True, maybe_setex = None, hdrs = [], body_lines = []\<rparr>
       (rev (drop 1 lines))"

text \<open>\<open>Message.from_message\<close>.  \<open>lines[0]\<close> raises \<open>IndexError\<close> on the empty message.\<close>

definition from_message :: "source \<Rightarrow> exc + message" where
  "from_message msg =
     (let (message, handle_break) =
            (case msg of Str m \<Rightarrow> (m, False) | PR p \<Rightarrow> (pr_message p, True));
          lines = splitlines message;
          s = from_message_loop handle_break lines;
          b = (if body_lines s \<noteq> [] \<and> last (body_lines s) \<noteq> []
               then body_lines s @ [[]] else body_lines s)
      in case lines of
           [] \<Rightarrow> Inl IndexError
         | title # _ \<Rightarrow> Inr (Message (join ''\<newline>'' (rev (b @ [title]))) (rev (hdrs s))))"

text \<open>The accessors of the \<open>Headers\<close> multi-map that the source calls; keys compare
  case-insensitively.\<close>

definition getlist :: "(string \<times> string) list \<Rightarrow> string \<Rightarrow> string list" where
  "getlist hs k = map snd (filter (\<lambda>h. lower (fst h) = lower k) hs)"

definition headers_pop :: "(string \<times> string) list \<Rightarrow> string \<Rightarrow> (string \<times> string) list" where
  "headers_pop hs k = filter (\<lambda>h. lower (fst h) \<noteq> lower k) hs"

definition headers_add :: "(string \<times> string) list \<Rightarrow> string \<Rightarrow> string \<Rightarrow> (string \<times> string) list" where
  "headers_add hs k v = hs @ [(k, v)]"

text \<open>\<open>OrderedSet\<close>: the first occurrence of each element, in order.\<close>

definition ordered_set :: "'a list \<Rightarrow> 'a list" where
  "ordered_set xs = rev (remdups (rev xs))"

text \<open>\<open>Message.__str__\<close>; the stable sort on \<open>k == 'Co-authored-by'\<close> moves that key
  last.\<close>

definition header_keys :: "message \<Rightarrow> string list" where
  "header_keys m =
     (let keys = ordered_set (map (\<lambda>h. capitalize (fst h)) (headers m))
      in filter (\<lambda>k. k \<noteq> ''Co-authored-by'') keys @ filter (\<lambda>k. k = ''Co-authored-by'') keys)"

definition trailer_block :: "message \<Rightarrow> string" where
  "trailer_block m =
     concat (map (\<lambda>k. concat (map (\<lambda>v. k @ '': '' @ v @ ''\<newline>'') (getlist (headers m) k)))
       (header_keys m))"

definition serialize :: "message \<Rightarrow> string" where
  "serialize m =
     (if headers m = [] then body m @ ''\<newline>''
      else body m @ ''\<newline>\<newline>'' @ trailer_block m)"

subsection \<open>The parsed body, as the specification words it\<close>

text \<open>
  The lines of a body after the title, read top-down: a run of blank lines counts as one
  blank line, and blank lines at the end are dropped.
\<close>

fun collapse_blank :: "string list \<Rightarrow> string list" where
  "collapse_blank [] = []"
| "collapse_blank (l # ls) =
     (if l \<noteq> [] then l # collapse_blank ls
      else if collapse_blank ls = [] \<or> hd (collapse_blank ls) = [] then collapse_blank ls
      else [] # collapse_blank ls)"

text \<open>The title, then one blank line, then the collapsed lines (the title alone when
  nothing else is left).\<close>

definition canonical_lines :: "string \<Rightarrow> string list \<Rightarrow> string list" where
  "canonical_lines title rest =
     (case collapse_blank rest of
        [] \<Rightarrow> [title]
      | l # ls \<Rightarrow> if l = [] then title # l # ls else title # [] # l # ls)"

definition no_trailer_lines :: "string list \<Rightarrow> bool" where
  "no_trailer_lines ls = list_all (\<lambda>l. HEADER_fullmatch l = None) ls"

section \<open>Collaborators\<close>

text \<open>
  The modules \<open>github\<close>, \<open>utils\<close> and \<open>pull_requests\<close>, the libraries \<open>re\<close>,
  \<open>json\<close>, \<open>difflib\<close> and \<open>requests\<close>, and the builtins \<open>int\<close> and
  \<open>bytes.decode\<close> are not part of the sources: what they compute is a parameter of
  every function below, the record \<open>ext\<close>.  An operation of the hosting provider that
  changes a repository maps the state of that repository to a result or an exception,
  and a new state; nothing is assumed about either.
\<close>

record merge_result =
  m_sha :: sha
  m_tree :: sha

record commit_request =
  cr_message :: string
  cr_tree :: sha
  cr_parents :: "sha list"
  cr_author :: "identity option"
  cr_committer :: "identity option"

record response =
  ok :: bool
  raw :: string

record ext =
  gh_merge :: "remote \<Rightarrow> sha \<Rightarrow> string \<Rightarrow> string \<Rightarrow> (exc + merge_result) \<times> remote"
  gh_rebase ::
    "remote \<Rightarrow> nat \<Rightarrow> string \<Rightarrow> bool \<Rightarrow> prcommit list \<Rightarrow> (exc + sha \<times> (sha \<times> sha) list) \<times> remote"
  gh_post_commit :: "remote \<Rightarrow> commit_request \<Rightarrow> (exc + sha) \<times> remote"
  make_message :: "prdict \<Rightarrow> string"
  build_merge_message :: "world \<Rightarrow> pull_request \<Rightarrow> source \<Rightarrow> nat list \<Rightarrow> message"
  re_search :: "string \<Rightarrow> string \<Rightarrow> bool"
  re_escape :: "string \<Rightarrow> string"
  github_error_message :: "string \<Rightarrow> string option"
  field_string :: "string \<Rightarrow> string"
  differ_compare :: "string list \<Rightarrow> string list \<Rightarrow> string list"
  having_branch :: "world \<Rightarrow> nat \<Rightarrow> branch \<Rightarrow> bool"
  urandom_b64 :: "nat \<Rightarrow> string"
  http_get :: "nat \<Rightarrow> string \<Rightarrow> string \<Rightarrow> response"
  int16 :: "string \<Rightarrow> int option"
  decode :: "string \<Rightarrow> string option"
  retries :: "int list \<Rightarrow> nat"

text \<open>\<open>gh.head(ref)\<close>, \<open>gh.set_ref(ref, sha)\<close> and the lifting of an operation on one
  repository to the whole state; \<open>gh\<close> is the id of the repository the handle is for.\<close>

definition gh_head :: "nat \<Rightarrow> string \<Rightarrow> world \<Rightarrow> exc + sha" where
  "gh_head gh ref w =
     (case refs (remotes w gh) ref of None \<Rightarrow> Inl (RemoteError ref) | Some h \<Rightarrow> Inr h)"

definition gh_set_ref :: "nat \<Rightarrow> string \<Rightarrow> sha \<Rightarrow> world \<Rightarrow> world" where
  "gh_set_ref gh ref h w =
     w\<lparr>remotes := (remotes w)(gh := (remotes w gh)\<lparr>refs := (refs (remotes w gh))(ref \<mapsto> h)\<rparr>)\<rparr>"

definition on_remote :: "nat \<Rightarrow> (remote \<Rightarrow> (exc + 'a) \<times> remote) \<Rightarrow> world \<Rightarrow> (exc + 'a) \<times> world" where
  "on_remote gh f w =
     (case f (remotes w gh) of (res, rm) \<Rightarrow> (res, w\<lparr>remotes := (remotes w)(gh := rm)\<rparr>))"

text \<open>\<open>str(n)\<close> for a number, and \<open>id::text\<close> in the query of \<open>ready_prs\<close>.\<close>

definition digit_char :: "nat \<Rightarrow> char" where
  "digit_char d = ''0123456789'' ! d"

fun text_of_nat :: "nat \<Rightarrow> string" where
  "text_of_nat n = (if n < 10 then [digit_char n] else text_of_nat (n div 10) @ [digit_char (n mod 10)])"

declare text_of_nat.simps [simp del]

text \<open>The truth value of a string that may be \<open>None\<close>.\<close>

definition truthy :: "string option \<Rightarrow> bool" where
  "truthy s = (s \<noteq> None \<and> s \<noteq> Some [])"

definition str_of :: "string option \<Rightarrow> string" where
  "str_of s = (case s of None \<Rightarrow> ''None'' | Some t \<Rightarrow> t)"

definition str_value :: "field_value \<Rightarrow> string" where
  "str_value v =
     (case v of VStr s \<Rightarrow> s | VInt n \<Rightarrow> text_of_nat n
      | VBool b \<Rightarrow> if b then ''True'' else ''False'')"

text \<open>\<open>pr.target.name\<close> and \<open>'tmp.{}'.format(pr.target.name)\<close>.\<close>

definition target_name :: "world \<Rightarrow> pull_request \<Rightarrow> exc + string" where
  "target_name w pr =
     (case get_branch w (pr_target pr) of None \<Rightarrow> Inl MissingError | Some b \<Rightarrow> Inr (br_name b))"

definition tmp_ref :: "string \<Rightarrow> string" where
  "tmp_ref name = ''tmp.'' @ name"

text \<open>\<open>pr.write(vals)\<close>, for the fields that \<open>stage\<close> writes.\<close>

definition write_field :: "pull_request \<Rightarrow> string \<times> field_value \<Rightarrow> pull_request" where
  "write_field p kv =
     (case kv of
        (k, VStr s) \<Rightarrow>
          if k = ''head'' then p\<lparr>pr_head := s\<rparr>
          else if k = ''message'' then p\<lparr>pr_message := s\<rparr>
          else if k = ''state'' then p\<lparr>pr_state := s\<rparr>
          else p
      | (k, VInt n) \<Rightarrow> if k = ''target'' then p\<lparr>pr_target := n\<rparr> else p
      | (k, VBool b) \<Rightarrow> if k = ''squash'' then p\<lparr>pr_squash := b\<rparr> else p)"

definition pr_write :: "nat \<Rightarrow> (string \<times> field_value) list \<Rightarrow> world \<Rightarrow> world" where
  "pr_write i vals w = write_pr i (\<lambda>p. foldl write_field p vals) w"

section \<open>Cross-reference footers\<close>

text \<open>\<open>is_mentioned\<close>, for a message that is a string; the pattern is built as in the
  source (the repository name is not escaped) and handed to \<open>re.search\<close>.\<close>

definition is_mentioned :: "ext \<Rightarrow> world \<Rightarrow> string \<Rightarrow> pull_request \<Rightarrow> bool \<Rightarrow> bool" where
  "is_mentioned E w message pr full_reference =
     (let pattern =
            (if full_reference
             then [CHR 0x5C, CHR ''b''] @ re_escape E (pr_display_name pr) @ [CHR 0x5C, CHR ''b'']
             else ''( |'' @ [CHR 0x5C, CHR ''b''] @ repo_name (repositories w (pr_repository pr)) @
                  '')#'' @ text_of_nat (pr_number pr) @ [CHR 0x5C, CHR ''b''])
      in re_search E pattern message)"

text \<open>\<open>add_self_references\<close>: the commits come back with their new messages; parsing
  an empty message raises.\<close>

fun add_self_references :: "ext \<Rightarrow> world \<Rightarrow> pull_request \<Rightarrow> prcommit list \<Rightarrow> exc + prcommit list" where
  "add_self_references E w pr [] = Inr []"
| "add_self_references E w pr (c # cs) =
     (if \<not> is_mentioned E w (c_message c) pr False then
        (case from_message (Str (c_message c)) of
           Inl e \<Rightarrow> Inl e
         | Inr m \<Rightarrow>
             (let m' = m\<lparr>headers := headers_add (headers_pop (headers m) ''Part-Of'') ''Part-Of''
                                       (pr_display_name pr)\<rparr>
              in case add_self_references E w pr cs of
                   Inl e \<Rightarrow> Inl e
                 | Inr cs' \<Rightarrow> Inr (c\<lparr>c_message := serialize m'\<rparr> # cs')))
      else
        (case add_self_references E w pr cs of
           Inl e \<Rightarrow> Inl e
         | Inr cs' \<Rightarrow> Inr (c # cs')))"

section \<open>Merge strategies\<close>

text \<open>A Python dictionary is a list of pairs with distinct keys, in the order of
  insertion: \<open>AList.update\<close> is the assignment \<open>d[k] = v\<close>.\<close>

definition dict_of :: "('k \<times> 'v) list \<Rightarrow> ('k \<times> 'v) list" where
  "dict_of kvs = foldl (\<lambda>d kv. AList.update (fst kv) (snd kv) d) [] kvs"

definition set_commits_map :: "pull_request \<Rightarrow> (string \<times> sha) list \<Rightarrow> world \<Rightarrow> world" where
  "set_commits_map pr commits_map w = write_pr (pr_id pr) (\<lambda>p. p\<lparr>pr_commits_map := commits_map\<rparr>) w"

definition co_author :: "string \<times> string option \<Rightarrow> string" where
  "co_author a = fst a @ '' <'' @ str_of (snd a) @ ''>''"

definition stage_squash ::
  "ext \<Rightarrow> pull_request \<Rightarrow> nat \<Rightarrow> string \<Rightarrow> prcommit list \<Rightarrow> nat list \<Rightarrow> world \<Rightarrow> (exc + sha) \<times> world" where
  "stage_squash E pr gh target commits related_prs w =
     (let msg0 = build_merge_message E w pr (PR pr) related_prs;
          authors = remdups (map (\<lambda>c. (id_name (c_author c), id_email (c_author c))) commits);
          author = (if length authors = 1
                    then Some \<lparr>id_name = fst (hd authors), id_email = snd (hd authors)\<rparr> else None);
          msg = (if length authors = 1 then msg0
                 else msg0\<lparr>headers := headers msg0 @
                        map (\<lambda>s. (''Co-Authored-By'', s)) (sort (map co_author authors))\<rparr>);
          committers = remdups (map (\<lambda>c. (id_name (c_committer c), id_email (c_committer c))) commits);
          committer = (if length committers = 1
                       then Some \<lparr>id_name = fst (hd committers), id_email = snd (hd committers)\<rparr>
                       else None)
      in case gh_head gh target w of
           Inl e \<Rightarrow> (Inl e, w)
         | Inr original_head \<Rightarrow>
             (case on_remote gh (\<lambda>r. gh_merge E r (pr_head pr) target ''temp merge'') w of
                (Inl e, w1) \<Rightarrow> (Inl e, w1)
              | (Inr merged, w1) \<Rightarrow>
                  (case on_remote gh (\<lambda>r. gh_post_commit E r
                            \<lparr>cr_message = serialize msg, cr_tree = m_tree merged,
                             cr_parents = [original_head], cr_author = author,
                             cr_committer = committer\<rparr>) w1 of
                     (Inl e, w2) \<Rightarrow> (Inl e, w2)
                   | (Inr head, w2) \<Rightarrow>
                       (let w3 = gh_set_ref gh target head w2;
                            commits_map = AList.update [] head (dict_of (map (\<lambda>c. (c_sha c, head)) commits))
                        in (Inr head, set_commits_map pr commits_map w3)))))"

definition stage_rebase_ff ::
  "ext \<Rightarrow> pull_request \<Rightarrow> nat \<Rightarrow> string \<Rightarrow> prcommit list \<Rightarrow> nat list \<Rightarrow> world \<Rightarrow> (exc + sha) \<times> world" where
  "stage_rebase_ff E pr gh target commits related_prs w =
     (if commits = [] then (Inl IndexError, w)
      else
        (let msg = build_merge_message E w pr (Str (c_message (last commits))) related_prs;
             final = (last commits)\<lparr>c_message := serialize msg\<rparr>
         in case add_self_references E w pr (butlast commits) of
              Inl e \<Rightarrow> (Inl e, w)
            | Inr others \<Rightarrow>
                (case on_remote gh (\<lambda>r. gh_rebase E r (pr_number pr) target False (others @ [final])) w of
                   (Inl e, w1) \<Rightarrow> (Inl e, w1)
                 | (Inr (head, mapping), w1) \<Rightarrow>
                     (Inr head, set_commits_map pr (AList.update [] head (dict_of mapping)) w1))))"

definition stage_rebase_merge ::
  "ext \<Rightarrow> pull_request \<Rightarrow> nat \<Rightarrow> string \<Rightarrow> prcommit list \<Rightarrow> nat list \<Rightarrow> world \<Rightarrow> (exc + sha) \<times> world" where
  "stage_rebase_merge E pr gh target commits related_prs w =
     (case add_self_references E w pr commits of
        Inl e \<Rightarrow> (Inl e, w)
      | Inr commits' \<Rightarrow>
          (case on_remote gh (\<lambda>r. gh_rebase E r (pr_number pr) target True commits') w of
             (Inl e, w1) \<Rightarrow> (Inl e, w1)
           | (Inr (h, mapping), w1) \<Rightarrow>
               (let msg = build_merge_message E w1 pr (PR pr) related_prs
                in case on_remote gh (\<lambda>r. gh_merge E r h target (serialize msg)) w1 of
                     (Inl e, w2) \<Rightarrow> (Inl e, w2)
                   | (Inr merged, w2) \<Rightarrow>
                       (Inr (m_sha merged),
                        set_commits_map pr (AList.update [] (m_sha merged) (dict_of mapping)) w2))))"

text \<open>
  \<open>stage_merge\<close>.  The sets \<open>head_parents\<close> and \<open>merge\<close> are lists without
  duplicates, in the order of the parents (Python iterates a set in an order of its own).
  The \<open>Unmergeable\<close> raised for several external parents has the text as its only
  argument.
\<close>

definition external_parents_text :: "sha list \<Rightarrow> string" where
  "external_parents_text merge =
     ''The PR head can only have one parent from the base branch (not part of the PR itself), found '' @
     text_of_nat (length merge) @ '': '' @ join '', '' merge"

definition stage_merge ::
  "ext \<Rightarrow> pull_request \<Rightarrow> nat \<Rightarrow> string \<Rightarrow> prcommit list \<Rightarrow> nat list \<Rightarrow> world \<Rightarrow> (exc + sha) \<times> world" where
  "stage_merge E pr gh target commits related_prs w =
     (if commits = [] then (Inl IndexError, w)
      else
        (let pr_head_commit = last commits;
             head_parents = remdups (c_parents pr_head_commit);
             merge = filter (\<lambda>p. p \<notin> set (map c_sha commits)) head_parents;
             external_parents = length merge
         in if length head_parents > 1 \<and> external_parents > 1
            then (Inl (Unmergeable [ArgStr (external_parents_text merge)]), w)
            else
              (let base_commit = (if length head_parents > 1 \<and> external_parents = 1
                                  then Some (hd merge) else None);
                   commits_map = dict_of (map (\<lambda>c. (c_sha c, c_sha c)) commits)
               in if truthy base_commit then
                    (case gh_head gh target w of
                       Inl e \<Rightarrow> (Inl e, w)
                     | Inr original_head \<Rightarrow>
                         (case on_remote gh (\<lambda>r. gh_merge E r (c_sha pr_head_commit) target ''temp merge'') w of
                            (Inl e, w1) \<Rightarrow> (Inl e, w1)
                          | (Inr merged, w1) \<Rightarrow>
                              (let new_parents =
                                     original_head # filter (\<lambda>p. Some p \<noteq> base_commit) head_parents;
                                   msg = build_merge_message E w1 pr (Str (c_message pr_head_commit)) related_prs
                               in case on_remote gh (\<lambda>r. gh_post_commit E r
                                         \<lparr>cr_message = serialize msg, cr_tree = m_tree merged,
                                          cr_parents = new_parents,
                                          cr_author = Some (c_author pr_head_commit),
                                          cr_committer = Some (c_committer pr_head_commit)\<rparr>) w1 of
                                    (Inl e, w2) \<Rightarrow> (Inl e, w2)
                                  | (Inr copy, w2) \<Rightarrow>
                                      (let w3 = gh_set_ref gh target copy w2;
                                           commits_map' = AList.update (c_sha pr_head_commit) copy
                                                            (AList.update [] copy commits_map)
                                       in (Inr copy, set_commits_map pr commits_map' w3)))))
                  else
                    (let msg = build_merge_message E w pr (PR pr) []
                     in case on_remote gh (\<lambda>r. gh_merge E r (pr_head pr) target (serialize msg)) w of
                          (Inl e, w1) \<Rightarrow> (Inl e, w1)
                        | (Inr merged, w1) \<Rightarrow>
                            (Inr (m_sha merged),
                             set_commits_map pr (AList.update [] (m_sha merged) commits_map) w1)))))"

section \<open>Staging one pull request\<close>

definition missing_email :: "prcommit \<Rightarrow> bool" where
  "missing_email c = (\<not> (truthy (id_email (c_author c)) \<and> truthy (id_email (c_committer c))))"

definition missing_email_text :: "prcommit \<Rightarrow> string" where
  "missing_email_text c =
     ''All commits must have author and committer email, missing email on '' @ c_sha c @
     '' indicates the authorship is most likely incorrect.''"

text \<open>\<open>pr.merge_method or ('rebase-ff' if commits == 1 else None)\<close>.\<close>

definition select_method :: "pull_request \<Rightarrow> int \<Rightarrow> Method option" where
  "select_method pr commits =
     (case pr_merge_method pr of
        Some m \<Rightarrow> Some m
      | None \<Rightarrow> if commits = 1 then Some Rebase_ff else None)"

text \<open>The search for the branch a pull request was retargeted to: by name, in the
  project of the repository, inactive branches included.\<close>

definition search_branch :: "world \<Rightarrow> string \<Rightarrow> nat \<Rightarrow> branch list" where
  "search_branch w name proj = filter (\<lambda>b. br_name b = name \<and> project_id b = proj) (branch_table w)"

text \<open>
  The comparison of the cached with the live values.  \<open>pr.squash != commits == 1\<close>
  is a chained comparison: \<open>pr.squash != commits and commits == 1\<close>, where the truth
  values compare as 1 and 0.  The result is the pair \<open>(invalid, diff)\<close>, or the
  \<open>Unmergeable\<close> of a retargeting to an unmanaged branch (with the pull request
  deleted).
\<close>

definition check_consistency ::
  "ext \<Rightarrow> pull_request \<Rightarrow> prdict \<Rightarrow> sha \<Rightarrow> world \<Rightarrow>
   (exc + (string \<times> field_value) list \<times> (string \<times> field_value \<times> field_value) list) \<times> world" where
  "check_consistency E pr prdict live_head w =
     (let commits = pd_commits prdict;
          head_diff = (if pr_head pr \<noteq> live_head
                       then ([(''head'', VStr live_head)], [(''Head'', VStr (pr_head pr), VStr live_head)])
                       else ([], []));
          squash_diff = (if (if pr_squash pr then 1 else 0) \<noteq> commits \<and> commits = 1
                         then ([(''squash'', VBool (commits = 1))],
                               [(''Single commit'', VBool (pr_squash pr), VBool (commits = 1))])
                         else ([], []));
          msg = make_message E prdict;
          message_diff = (if pr_message pr \<noteq> msg
                          then ([(''message'', VStr msg)], [(''Message'', VStr (pr_message pr), VStr msg)])
                          else ([], []))
      in case target_name w pr of
           Inl e \<Rightarrow> (Inl e, w)
         | Inr name \<Rightarrow>
             if name \<noteq> pd_base_ref prdict then
               (case search_branch w (pd_base_ref prdict)
                       (repo_project_id (repositories w (pr_repository pr))) of
                  [] \<Rightarrow>
                    (Inl (Unmergeable [ArgPR (pr_id pr),
                       ArgStr ''While staging, found this PR had been retargeted to an un-managed branch.'']),
                     unlink_pr (pr_id pr) w)
                | [b] \<Rightarrow>
                    (Inr (fst head_diff @ [(''target'', VInt (branch_id b))] @ fst squash_diff @ fst message_diff,
                          snd head_diff @ [(''Target branch'', VStr name, VStr (br_name b))] @
                          snd squash_diff @ snd message_diff), w)
                | _ \<Rightarrow> (Inl ValueError, w))
             else
               (Inr (fst head_diff @ fst squash_diff @ fst message_diff,
                     snd head_diff @ snd squash_diff @ snd message_diff), w))"

text \<open>The refresh of the reviewer's name from the remote.\<close>

definition sync_reviewer :: "pull_request \<Rightarrow> nat \<Rightarrow> world \<Rightarrow> (exc + unit) \<times> world" where
  "sync_reviewer pr gh w =
     (case pr_reviewed_by pr of
        None \<Rightarrow> (Inr (), w)
      | Some r \<Rightarrow>
          if partner_name (partners w r) = github_login (partners w r) then
            (case users (remotes w gh) (github_login (partners w r)) of
               None \<Rightarrow> (Inl (RemoteError (github_login (partners w r))), w)
             | Some gh_name \<Rightarrow>
                 if truthy gh_name
                 then (Inr (), w\<lparr>partners := (partners w)(r := (partners w r)\<lparr>partner_name := str_of gh_name\<rparr>)\<rparr>)
                 else (Inr (), w))
          else (Inr (), w))"

text \<open>The \<open>match\<close> statement at the end of \<open>stage\<close>, for a method that is
  set.\<close>

definition dispatch ::
  "ext \<Rightarrow> Method \<Rightarrow> pull_request \<Rightarrow> nat \<Rightarrow> string \<Rightarrow> prcommit list \<Rightarrow> nat list \<Rightarrow> world \<Rightarrow>
   (exc + sha) \<times> world" where
  "dispatch E m pr gh target pr_commits related_prs w =
     (case m of
        Merge \<Rightarrow> stage_merge E pr gh target pr_commits related_prs w
      | Rebase_merge \<Rightarrow> stage_rebase_merge E pr gh target pr_commits related_prs w
      | Rebase_ff \<Rightarrow> stage_rebase_ff E pr gh target pr_commits related_prs w
      | Squash \<Rightarrow> stage_squash E pr gh target pr_commits related_prs w)"

text \<open>\<open>method.startswith('rebase')\<close>, for a method that is set.\<close>

definition rebase_family :: "Method \<Rightarrow> bool" where
  "rebase_family m = startswith (method_name m) ''rebase''"

text \<open>
  \<open>stage\<close>.  With no method (\<open>m = None\<close>), \<open>method.startswith\<close> raises
  \<open>AttributeError\<close> once it is evaluated, and \<open>fn\<close> is unbound at the final call.
\<close>

definition stage ::
  "ext \<Rightarrow> pull_request \<Rightarrow> nat \<Rightarrow> string \<Rightarrow> nat list \<Rightarrow> world \<Rightarrow> (exc + Method \<times> sha) \<times> world" where
  "stage E pr gh target related_prs w =
     (case pulls (remotes w gh) (pr_number pr) of
        None \<Rightarrow> (Inl (RemoteError ''pulls''), w)
      | Some prdict \<Rightarrow>
          (let commits = pd_commits prdict;
               m = select_method pr commits
           in if commits > 50 \<and> m = None then (Inl AttributeError, w)
              else if commits > 50 \<and> (case m of Some meth \<Rightarrow> rebase_family meth | None \<Rightarrow> False)
              then (Inl (Unmergeable [ArgPR (pr_id pr), ArgStr ''Rebasing 50 commits is too much.'']), w)
              else if commits > 250
              then (Inl (Unmergeable [ArgPR (pr_id pr),
                      ArgStr (''Merging PRs of 250 or more commits is not supported '' @
                              ''(https://developer.github.com/v3/pulls/#list-commits-on-a-pull-request)'')]), w)
              else
                (case pull_commits (remotes w gh) (pr_number pr) of
                   None \<Rightarrow> (Inl (RemoteError ''commits''), w)
                 | Some pr_commits \<Rightarrow>
                     (case find missing_email pr_commits of
                        Some c \<Rightarrow> (Inl (Unmergeable [ArgPR (pr_id pr), ArgStr (missing_email_text c)]), w)
                      | None \<Rightarrow>
                          if pr_commits = [] then (Inl IndexError, w)
                          else
                            (case check_consistency E pr prdict (c_sha (last pr_commits)) w of
                               (Inl e, w1) \<Rightarrow> (Inl e, w1)
                             | (Inr (invalid, diff), w1) \<Rightarrow>
                                 if invalid \<noteq> [] then
                                   (Inl (Mismatch invalid diff),
                                    pr_write (pr_id pr)
                                      (invalid @ [(''state'', VStr ''opened''),
                                                  (''head'', VStr (c_sha (last pr_commits)))]) w1)
                                 else
                                   (case sync_reviewer pr gh w1 of
                                      (Inl e, w2) \<Rightarrow> (Inl e, w2)
                                    | (Inr u, w2) \<Rightarrow>
                                        (case m of
                                           None \<Rightarrow> (Inl UnboundLocalError, w2)
                                         | Some meth \<Rightarrow>
                                             (case dispatch E meth pr gh target pr_commits related_prs w2 of
                                                (Inl e, w3) \<Rightarrow> (Inl e, w3)
                                              | (Inr h, w3) \<Rightarrow> (Inr (meth, h), w3)))))))))"

section \<open>Staging a batch\<close>

text \<open>
  The staging state maps a repository to the head of its slice (the \<open>gh\<close> handle of a
  slice is the repository itself, and working copies are not modelled).
  \<open>format_for_difflib\<close> and the notifications follow the source.
\<close>

type_synonym staging_state = "(nat \<times> sha) list"

definition format_for_difflib :: "(string \<times> field_value) list \<Rightarrow> string list" where
  "format_for_difflib items =
     concat (map (\<lambda>(name, v).
        [name @ '':\<newline>''] @
        splitlines_keepends_from []
          (if endswith (str_value v) ''\<newline>'' then str_value v else str_value v @ ''\<newline>'') @
        [''\<newline>'']) items)"

definition mismatch_notification ::
  "ext \<Rightarrow> pull_request \<Rightarrow> (string \<times> field_value) list \<Rightarrow> (string \<times> field_value \<times> field_value) list \<Rightarrow>
   notification" where
  "mismatch_notification E pr invalid diff =
     \<lparr>n_template = ''runbot_merge.pr.staging.mismatch'',
      n_repository = pr_repository pr,
      n_pull_request = pr_number pr,
      n_args =
        [(''mismatch'', join '', '' (map (\<lambda>f. field_string E (fst f)) invalid)),
         (''diff'', concat (differ_compare E
            (format_for_difflib (map (\<lambda>(n, v, _). (n, v)) diff))
            (format_for_difflib (map (\<lambda>(n, _, v). (n, v)) diff)))),
         (''unchecked'', join '', '' (map (field_string E) [''merge_method'', ''overrides'', ''draft'']))]\<rparr>"

definition send :: "notification \<Rightarrow> world \<Rightarrow> world" where
  "send n w = w\<lparr>sent := sent w @ [n]\<rparr>"

text \<open>\<open>Batch.create\<close>.\<close>

definition new_batch_id :: "world \<Rightarrow> nat" where
  "new_batch_id w = Suc (foldr max (map batch_id (batch_table w)) 0)"

definition create_batch :: "nat \<Rightarrow> nat list \<Rightarrow> world \<Rightarrow> nat \<times> world" where
  "create_batch target prs w =
     (new_batch_id w,
      w\<lparr>batch_table := batch_table w @ [\<lparr>batch_id = new_batch_id w, batch_target = target, batch_prs = prs\<rparr>]\<rparr>)"

text \<open>
  The loop \<open>for to_revert in new_heads.keys()\<close> of the handler: every earlier success
  has the temporary ref of its repository set to the head of its slice.
\<close>

fun revert :: "staging_state \<Rightarrow> nat list \<Rightarrow> world \<Rightarrow> exc option \<times> world" where
  "revert staging [] w = (None, w)"
| "revert staging (i # is) w =
     (case browse w i of
        None \<Rightarrow> (Some MissingError, w)
      | Some to_revert \<Rightarrow>
          (case map_of staging (pr_repository to_revert) of
             None \<Rightarrow> (Some KeyError, w)
           | Some it_head \<Rightarrow>
               (case target_name w to_revert of
                  Inl e \<Rightarrow> (Some e, w)
                | Inr name \<Rightarrow>
                    revert staging is (gh_set_ref (pr_repository to_revert) (tmp_ref name) it_head w))))"

text \<open>
  The inner \<open>try\<close> of \<open>stage_batch\<close> for one pull request: \<open>stage\<close>, and on any
  exception the reset of the ref that failed, then of every previous update, before the
  exception is raised again (an exception of the handler itself replaces it).
\<close>

definition stage_or_rollback ::
  "ext \<Rightarrow> staging_state \<Rightarrow> (nat \<times> sha) list \<Rightarrow> pull_request \<Rightarrow> nat \<Rightarrow> string \<Rightarrow> sha \<Rightarrow> nat list \<Rightarrow> world \<Rightarrow>
   (exc + Method \<times> sha) \<times> world" where
  "stage_or_rollback E staging new_heads pr gh target original_head related_prs w =
     (case stage E pr gh target related_prs w of
        (Inr res, w1) \<Rightarrow> (Inr res, w1)
      | (Inl e, w1) \<Rightarrow>
          (case revert staging (map fst new_heads) (gh_set_ref gh target original_head w1) of
             (Some e', w2) \<Rightarrow> (Inl e', w2)
           | (None, w2) \<Rightarrow> (Inl e, w2)))"

text \<open>
  The loop of \<open>stage_batch\<close> over the pull requests \<open>todo\<close> still to stage, with the
  dictionary \<open>new_heads\<close>; \<open>prs\<close> is the whole batch.  The result is \<open>new_heads\<close>
  after the last pull request, or \<open>None\<close> after a mismatch (the batch is given up and
  the empty set of batches is returned), or the exception that leaves \<open>stage_batch\<close>.
\<close>

fun stage_prs ::
  "ext \<Rightarrow> staging_state \<Rightarrow> nat list \<Rightarrow> nat list \<Rightarrow> (nat \<times> sha) list \<Rightarrow> world \<Rightarrow>
   (exc + (nat \<times> sha) list option) \<times> world" where
  "stage_prs E staging prs [] new_heads w = (Inr (Some new_heads), w)"
| "stage_prs E staging prs (i # todo) new_heads w =
     (case browse w i of
        None \<Rightarrow> (Inl MissingError, w)
      | Some pr \<Rightarrow>
          (case map_of staging (pr_repository pr) of
             None \<Rightarrow> (Inl KeyError, w)
           | Some slice_head \<Rightarrow>
               (case target_name w pr of
                  Inl e \<Rightarrow> (Inl e, w)
                | Inr name \<Rightarrow>
                    (case gh_head (pr_repository pr) (tmp_ref name) w of
                       Inl e \<Rightarrow> (Inl e, w)
                     | Inr original_head \<Rightarrow>
                         (case stage_or_rollback E staging new_heads pr (pr_repository pr) (tmp_ref name)
                                 original_head (filter (\<lambda>j. j \<noteq> i) prs) w of
                            (Inr (m, h), w1) \<Rightarrow>
                              stage_prs E staging prs todo (AList.update i h new_heads) w1
                          | (Inl (GithubMergeError t), w1) \<Rightarrow>
                              (Inl (MergeError [ArgPR (pr_id pr)] t), w1)
                          | (Inl (Mismatch invalid diff), w1) \<Rightarrow>
                              (Inr None, send (mismatch_notification E pr invalid diff) w1)
                          | (Inl e, w1) \<Rightarrow> (Inl e, w1))))))"

text \<open>\<open>staging[pr.repository].head = head\<close> for every entry of \<open>new_heads\<close>, in order.\<close>

fun update_heads :: "(nat \<times> sha) list \<Rightarrow> staging_state \<Rightarrow> world \<Rightarrow> exc option \<times> staging_state" where
  "update_heads [] staging w = (None, staging)"
| "update_heads ((i, h) # nh) staging w =
     (case browse w i of
        None \<Rightarrow> (Some MissingError, staging)
      | Some pr \<Rightarrow>
          (case map_of staging (pr_repository pr) of
             None \<Rightarrow> (Some KeyError, staging)
           | Some _ \<Rightarrow> update_heads nh (AList.update (pr_repository pr) h staging) w))"

text \<open>\<open>stage_batch\<close>: the batches created (none after a mismatch, else one), the
  staging state and the new state of the world.\<close>

definition stage_batch ::
  "ext \<Rightarrow> nat list \<Rightarrow> staging_state \<Rightarrow> world \<Rightarrow> (exc + nat list) \<times> staging_state \<times> world" where
  "stage_batch E prs staging w =
     (case stage_prs E staging prs prs [] w of
        (Inl e, w1) \<Rightarrow> (Inl e, staging, w1)
      | (Inr None, w1) \<Rightarrow> (Inr [], staging, w1)
      | (Inr (Some new_heads), w1) \<Rightarrow>
          (case update_heads new_heads staging w1 of
             (Some e, staging') \<Rightarrow> (Inl e, staging', w1)
           | (None, staging') \<Rightarrow>
               (case prs of
                  [] \<Rightarrow> (Inl IndexError, staging', w1)
                | first # _ \<Rightarrow>
                    (case browse w1 first of
                       None \<Rightarrow> (Inl MissingError, staging', w1)
                     | Some pr0 \<Rightarrow>
                         (case create_batch (pr_target pr0) prs w1 of
                            (b, w2) \<Rightarrow> (Inr [b], staging', w2))))))"

section \<open>Staging the batches\<close>

text \<open>
  The handler of \<open>stage_batches\<close> for an exception of class \<open>exceptions.MergeError\<close>.
  \<open>pr = e.args[0]\<close> is whatever the first argument is: reading \<open>display_name\<close> from
  a string raises \<open>AttributeError\<close>, and from a deleted record \<open>MissingError\<close>.
\<close>

definition is_merge_error :: "exc \<Rightarrow> bool" where
  "is_merge_error e = (case e of MergeError _ _ \<Rightarrow> True | Unmergeable _ \<Rightarrow> True | _ \<Rightarrow> False)"

definition is_unmergeable :: "exc \<Rightarrow> bool" where
  "is_unmergeable e = (case e of Unmergeable _ \<Rightarrow> True | _ \<Rightarrow> False)"

definition exc_args :: "exc \<Rightarrow> pyarg list" where
  "exc_args e = (case e of MergeError args _ \<Rightarrow> args | Unmergeable args \<Rightarrow> args | _ \<Rightarrow> [])"

definition exc_cause :: "exc \<Rightarrow> string option" where
  "exc_cause e = (case e of MergeError _ cause \<Rightarrow> Some cause | _ \<Rightarrow> None)"

definition arg_truthy :: "pyarg \<Rightarrow> bool" where
  "arg_truthy a = (case a of ArgStr s \<Rightarrow> s \<noteq> [] | ArgPR _ \<Rightarrow> True)"

definition arg_text :: "world \<Rightarrow> pyarg \<Rightarrow> string" where
  "arg_text w a =
     (case a of
        ArgStr s \<Rightarrow> s
      | ArgPR i \<Rightarrow> ''runbot_merge.pull_requests('' @ text_of_nat i @ '',)'')"

definition failure_reason :: "ext \<Rightarrow> world \<Rightarrow> exc \<Rightarrow> string" where
  "failure_reason E w e =
     (let reason = (if length (exc_args e) > 1 \<and> arg_truthy (exc_args e ! 1)
                    then arg_text w (exc_args e ! 1) else str_of (exc_cause e))
      in case github_error_message E reason of Some m \<Rightarrow> m | None \<Rightarrow> reason)"

definition merge_failed_notification :: "pull_request \<Rightarrow> string \<Rightarrow> notification" where
  "merge_failed_notification pr reason =
     \<lparr>n_template = ''runbot_merge.pr.merge.failed'',
      n_repository = pr_repository pr,
      n_pull_request = pr_number pr,
      n_args = [(''reason'', reason)]\<rparr>"

definition handle_merge_error :: "ext \<Rightarrow> nat list \<Rightarrow> exc \<Rightarrow> world \<Rightarrow> exc option \<times> world" where
  "handle_merge_error E staged e w =
     (case exc_args e of
        [] \<Rightarrow> (Some IndexError, w)
      | ArgStr s # _ \<Rightarrow> (Some AttributeError, w)
      | ArgPR i # _ \<Rightarrow>
          (case browse w i of
             None \<Rightarrow> (Some MissingError, w)
           | Some pr \<Rightarrow>
               if staged = [] \<or> is_unmergeable e then
                 (None,
                  send (merge_failed_notification pr (failure_reason E w e))
                    (pr_write i [(''state'', VStr ''error'')] w))
               else (None, w)))"

text \<open>\<open>staged |= batches\<close>.\<close>

definition union_ids :: "nat list \<Rightarrow> nat list \<Rightarrow> nat list" where
  "union_ids xs ys = xs @ filter (\<lambda>y. y \<notin> set xs) (remdups ys)"

fun stage_batches_from ::
  "ext \<Rightarrow> nat \<Rightarrow> nat list list \<Rightarrow> staging_state \<Rightarrow> nat list \<Rightarrow> world \<Rightarrow>
   (exc + nat list) \<times> staging_state \<times> world" where
  "stage_batches_from E limit [] staging staged w = (Inr staged, staging, w)"
| "stage_batches_from E limit (batch # rest) staging staged w =
     (if length staged \<ge> limit then (Inr staged, staging, w)
      else
        (case stage_batch E batch staging w of
           (Inr bs, staging', w1) \<Rightarrow> stage_batches_from E limit rest staging' (union_ids staged bs) w1
         | (Inl e, staging', w1) \<Rightarrow>
             if is_merge_error e then
               (case handle_merge_error E staged e w1 of
                  (Some e', w2) \<Rightarrow> (Inl e', staging', w2)
                | (None, w2) \<Rightarrow> stage_batches_from E limit rest staging' staged w2)
             else (Inl e, staging', w1)))"

definition stage_batches ::
  "ext \<Rightarrow> branch \<Rightarrow> nat list list \<Rightarrow> staging_state \<Rightarrow> world \<Rightarrow> (exc + nat list) \<times> staging_state \<times> world" where
  "stage_batches E branch batched_prs staging w =
     stage_batches_from E (batch_limit (projects w (project_id branch))) batched_prs staging [] w"

section \<open>Visibility of a published ref\<close>

text \<open>
  The stream \<open>resp.raw\<close> is the list of the bytes not read yet; \<open>read(n)\<close> takes the
  next \<open>n\<close> bytes, or everything for a negative \<open>n\<close>.
\<close>

definition read :: "int \<Rightarrow> string \<Rightarrow> string \<times> string" where
  "read n s = (if n < 0 then (s, []) else (take (nat n) s, drop (nat n) s))"

text \<open>\<open>read_line\<close>: a flush line is \<open>None\<close>; \<open>int(..., 16)\<close> may raise.\<close>

definition read_line :: "ext \<Rightarrow> string \<Rightarrow> (exc + string option) \<times> string" where
  "read_line E s =
     (case read 4 s of
        (len4, s1) \<Rightarrow>
          (case int16 E len4 of
             None \<Rightarrow> (Inl ValueError, s1)
           | Some l \<Rightarrow>
               if l = 0 then (Inr None, s1)
               else (case read (l - 4) s1 of (line, s2) \<Rightarrow> (Inr (Some line), s2))))"

definition is_hex_lower :: "char \<Rightarrow> bool" where
  "is_hex_lower c = (c \<in> set ''0123456789abcdef'')"

text \<open>\<open>refline.fullmatch(line)\<close>, with the groups 1 and 2.\<close>

definition refline_fullmatch :: "string \<Rightarrow> (string \<times> string) option" where
  "refline_fullmatch line =
     (let h = take 40 line;
          r = drop 41 line;
          name = takeWhile (\<lambda>c. c \<noteq> CHR 0x00 \<and> c \<noteq> CHR 0x0A) r;
          rest = dropWhile (\<lambda>c. c \<noteq> CHR 0x00 \<and> c \<noteq> CHR 0x0A) r
      in if length h = 40 \<and> list_all is_hex_lower h \<and> take 1 (drop 40 line) = '' '' \<and> name \<noteq> [] \<and>
            (rest = [] \<or> rest = [CHR 0x0A] \<or>
             (hd rest = CHR 0x00 \<and>
              (CHR 0x0A \<notin> set (tl rest) \<or>
               (last (tl rest) = CHR 0x0A \<and> CHR 0x0A \<notin> set (butlast (tl rest))))))
         then Some (h, name) else None)"

definition ZERO_REF :: string where
  "ZERO_REF = replicate 40 (CHR ''0'')"

definition rstrip_bytes :: "string \<Rightarrow> string" where
  "rstrip_bytes s = rev (dropWhile (\<lambda>c. c \<in> set [CHR 0x09, CHR 0x0A, CHR 0x0B, CHR 0x0C, CHR 0x0D, CHR 0x20]) (rev s))"

text \<open>
  The loop of \<open>parse_refs_smart\<close> after the two header lines.  The generator is a list
  of the pairs it yields, followed by the exception that ends it, if one does: its
  consumer may stop before the exception is reached.
\<close>

function ref_lines :: "ext \<Rightarrow> string \<Rightarrow> (string \<times> string) list \<times> exc option" where
  "ref_lines E s =
     (case read_line E s of
        (Inl e, _) \<Rightarrow> ([], Some e)
      | (Inr None, _) \<Rightarrow> ([], None)
      | (Inr (Some line), s') \<Rightarrow>
          if startswith line ZERO_REF then ([], None)
          else
            (case refline_fullmatch line of
               None \<Rightarrow> ([], Some AssertionError)
             | Some (h, name) \<Rightarrow>
                 (case (decode E h, decode E name) of
                    (Some h', Some name') \<Rightarrow>
                      (case ref_lines E s' of (items, end) \<Rightarrow> ((h', name') # items, end))
                  | _ \<Rightarrow> ([], Some UnicodeDecodeError))))"
  by pat_completeness auto
termination
proof (relation "measure (\<lambda>(E, s). length s)")
  show "wf (measure (\<lambda>(E, s). length s))" by simp
next
  fix E :: ext and s x y b x2 x2a
  assume rl: "(x, y) = read_line E s" "x = Inr b" "b = Some x2"
    and m: "refline_fullmatch x2 = Some x2a"
  from m have ne: "x2 \<noteq> []"
    by (cases x2) (simp_all add: refline_fullmatch_def Let_def)
  from rl have "read_line E s = (Inr (Some x2), y)" by simp
  with ne have "length y < length s"
    unfolding read_line_def read_def
    by (cases "int16 E (take 4 s)") (auto split: if_splits)
  then show "((E, y), (E, s)) \<in> measure (\<lambda>(E, s). length s)" by simp
qed

declare ref_lines.simps [simp del]

definition parse_refs_smart :: "ext \<Rightarrow> string \<Rightarrow> (string \<times> string) list \<times> exc option" where
  "parse_refs_smart E s =
     (case read_line E s of
        (Inl e, _) \<Rightarrow> ([], Some e)
      | (Inr header, s1) \<Rightarrow>
          if \<not> (header \<noteq> None \<and> header \<noteq> Some [] \<and>
                 rstrip_bytes (str_of header) = ''# service=git-upload-pack'')
          then ([], Some AssertionError)
          else
            (case read_line E s1 of
               (Inl e, _) \<Rightarrow> ([], Some e)
             | (Inr (Some _), _) \<Rightarrow> ([], Some AssertionError)
             | (Inr None, s2) \<Rightarrow> ref_lines E s2))"

text \<open>\<open>check_visibility\<close>, given the response to its request.\<close>

definition scan_refs :: "(string \<times> string) list \<times> exc option \<Rightarrow> string \<Rightarrow> string \<Rightarrow> exc + bool" where
  "scan_refs gen branch_name expected_head =
     (case find (\<lambda>(h, ref). ref = ''refs/heads/'' @ branch_name) (fst gen) of
        Some (h, ref) \<Rightarrow> Inr (h = expected_head)
      | None \<Rightarrow> (case snd gen of Some e \<Rightarrow> Inl e | None \<Rightarrow> Inr False))"

definition visibility_url :: "string \<Rightarrow> string" where
  "visibility_url name = ''https://github.com/'' @ name @ ''.git/info/refs?service=git-upload-pack''"

definition check_visibility ::
  "ext \<Rightarrow> nat \<Rightarrow> string \<Rightarrow> string \<Rightarrow> string \<Rightarrow> world \<Rightarrow> (exc + bool) \<times> world" where
  "check_visibility E repo branch_name expected_head token w =
     (let resp = http_get E (requests w) (visibility_url (repo_name (repositories w repo))) token;
          w' = w\<lparr>requests := Suc (requests w)\<rparr>
      in if \<not> ok resp then (Inr False, w')
         else (scan_refs (parse_refs_smart E (raw resp)) branch_name expected_head, w'))"

text \<open>The body of \<open>wait_for_visibility\<close>.\<close>

definition wait_for_visibility ::
  "ext \<Rightarrow> nat \<Rightarrow> string \<Rightarrow> string \<Rightarrow> string \<Rightarrow> world \<Rightarrow> (exc + unit) \<times> world" where
  "wait_for_visibility E repo refname head token w =
     (case check_visibility E repo refname head token w of
        (Inl e, w') \<Rightarrow> (Inl e, w')
      | (Inr True, w') \<Rightarrow> (Inr (), w')
      | (Inr False, w') \<Rightarrow> (Inl TimeoutError, w'))"

text \<open>
  Modelled from the spec: \<open>utils.backoff\<close>, which is not among the sources.  The
  caller retries the check on a fixed schedule and treats exhaustion as a timeout
  failure: the function is called again after each \<open>TimeoutError\<close> (the class given
  as \<open>exc\<close>) while retries are left, any other exception leaves at once, and the last
  \<open>TimeoutError\<close> is raised.  How many retries follow the first call for a list of
  delays is the parameter \<open>retries\<close>.
\<close>

fun backoff :: "nat \<Rightarrow> (world \<Rightarrow> (exc + 'a) \<times> world) \<Rightarrow> world \<Rightarrow> (exc + 'a) \<times> world" where
  "backoff 0 f w = f w"
| "backoff (Suc n) f w =
     (case f w of
        (Inl e, w') \<Rightarrow> if e = TimeoutError then backoff n f w' else (Inl e, w')
      | (Inr v, w') \<Rightarrow> (Inr v, w'))"

definition WAIT_FOR_VISIBILITY :: "int list" where
  "WAIT_FOR_VISIBILITY = [10, 10, 10, 10]"

section \<open>The staging transaction\<close>

text \<open>
  \<open>staging_setup\<close>: for every repository of the project that has the branch, the
  temporary ref is created at the head of the branch, which is recorded twice: as the
  original head and as the head of the slice.  The local fetch and clone are not modelled.
\<close>

definition participating :: "ext \<Rightarrow> world \<Rightarrow> branch \<Rightarrow> nat list" where
  "participating E w target =
     filter (\<lambda>r. having_branch E w r target) (repo_ids (projects w (project_id target)))"

fun setup_repos ::
  "branch \<Rightarrow> nat list \<Rightarrow> (nat \<times> sha) list \<Rightarrow> staging_state \<Rightarrow> world \<Rightarrow>
   (exc + (nat \<times> sha) list \<times> staging_state) \<times> world" where
  "setup_repos target [] original_heads staging w = (Inr (original_heads, staging), w)"
| "setup_repos target (repo # rs) original_heads staging w =
     (case gh_head repo (br_name target) w of
        Inl e \<Rightarrow> (Inl e, w)
      | Inr head \<Rightarrow>
          setup_repos target rs (AList.update repo head original_heads) (AList.update repo head staging)
            (gh_set_ref repo (tmp_ref (br_name target)) head w))"

definition staging_setup ::
  "ext \<Rightarrow> branch \<Rightarrow> nat list list \<Rightarrow> world \<Rightarrow> (exc + (nat \<times> sha) list \<times> staging_state) \<times> world" where
  "staging_setup E target batched_prs w = setup_repos target (participating E w target) [] [] w"

text \<open>The insertion into \<open>runbot_merge_commit\<close> with
  \<open>ON CONFLICT (sha) DO UPDATE SET to_check=true RETURNING id\<close>.\<close>

definition upsert_commit :: "sha \<Rightarrow> bool \<Rightarrow> world \<Rightarrow> nat \<times> world" where
  "upsert_commit h flag w =
     (case find (\<lambda>c. commit_sha c = h) (commit_table w) of
        Some c \<Rightarrow>
          (commit_id c,
           w\<lparr>commit_table := map (\<lambda>c. if commit_sha c = h then c\<lparr>to_check := True\<rparr> else c) (commit_table w)\<rparr>)
      | None \<Rightarrow>
          (let i = Suc (foldr max (map commit_id (commit_table w)) 0)
           in (i, w\<lparr>commit_table := commit_table w @ [\<lparr>commit_id = i, commit_sha = h, to_check = flag\<rparr>]\<rparr>)))"

definition dummy_message :: "string \<Rightarrow> sha \<Rightarrow> string" where
  "dummy_message uniquifier h =
     ''force rebuild\<newline>\<newline>uniquifier: '' @ uniquifier @ ''\<newline>For-Commit-Id: '' @ h @ ''\<newline>''"

text \<open>
  The first loop of \<open>stage_into\<close> after the batches, over the items \<open>todo\<close> of the
  staging state: a repository whose head moved has that head recorded for checking, any
  other gets a dummy commit on top of its head.  \<open>heads\<close> and \<open>commits\<close> pair the
  repository with the id of a row of \<open>runbot_merge_commit\<close>.
\<close>

fun record_heads ::
  "ext \<Rightarrow> (nat \<times> sha) list \<Rightarrow> (nat \<times> sha) list \<Rightarrow> staging_state \<Rightarrow> (nat \<times> nat) list \<Rightarrow> (nat \<times> nat) list \<Rightarrow>
   world \<Rightarrow> (exc + staging_state \<times> (nat \<times> nat) list \<times> (nat \<times> nat) list) \<times> world" where
  "record_heads E original_heads [] staging heads commits w = (Inr (staging, heads, commits), w)"
| "record_heads E original_heads ((repo, it_head) # todo) staging heads commits w =
     (case map_of original_heads repo of
        None \<Rightarrow> (Inl KeyError, w)
      | Some original \<Rightarrow>
          if it_head \<noteq> original then
            (case upsert_commit it_head True w of
               (c, w1) \<Rightarrow>
                 record_heads E original_heads todo staging (heads @ [(repo, c)]) (commits @ [(repo, c)]) w1)
          else
            (case trees (remotes w repo) it_head of
               None \<Rightarrow> (Inl (RemoteError it_head), w)
             | Some tree \<Rightarrow>
                 (let uniquifier = urandom_b64 E (draws w);
                      w0 = w\<lparr>draws := Suc (draws w)\<rparr>
                  in case on_remote repo (\<lambda>r. gh_post_commit E r
                            \<lparr>cr_message = dummy_message uniquifier it_head, cr_tree = tree,
                             cr_parents = [it_head], cr_author = None, cr_committer = None\<rparr>) w0 of
                       (Inl e, w1) \<Rightarrow> (Inl e, w1)
                     | (Inr dummy_head, w1) \<Rightarrow>
                         (case upsert_commit it_head False w1 of
                            (c, w2) \<Rightarrow>
                              (case upsert_commit dummy_head True w2 of
                                 (h, w3) \<Rightarrow>
                                   record_heads E original_heads todo
                                     (AList.update repo dummy_head staging)
                                     (heads @ [(repo, h)]) (commits @ [(repo, c)]) w3)))))"

definition create_staging ::
  "nat \<Rightarrow> nat list \<Rightarrow> (nat \<times> nat) list \<Rightarrow> (nat \<times> nat) list \<Rightarrow> world \<Rightarrow> nat \<times> world" where
  "create_staging target staged heads commits w =
     (let i = Suc (foldr max (map staging_id (staging_table w)) 0)
      in (i, w\<lparr>staging_table := staging_table w @
                 [\<lparr>staging_id = i, staging_target = target, staging_batch_ids = staged,
                   staging_heads = heads, staging_commits = commits\<rparr>]\<rparr>))"

text \<open>The last loop of \<open>stage_into\<close>: the staging ref of every repository is set,
  then waited for.\<close>

fun publish :: "ext \<Rightarrow> branch \<Rightarrow> staging_state \<Rightarrow> nat list \<Rightarrow> world \<Rightarrow> (exc + unit) \<times> world" where
  "publish E branch staging [] w = (Inr (), w)"
| "publish E branch staging (repo # rs) w =
     (case map_of staging repo of
        None \<Rightarrow> (Inl KeyError, w)
      | Some it_head \<Rightarrow>
          (let refname = ''staging.'' @ br_name branch;
               token = github_token (projects w (project_id branch))
           in case backoff (retries E WAIT_FOR_VISIBILITY)
                     (wait_for_visibility E repo refname it_head token)
                     (gh_set_ref repo refname it_head w) of
                (Inl e, w1) \<Rightarrow> (Inl e, w1)
              | (Inr u, w1) \<Rightarrow> publish E branch staging rs w1))"

definition stage_into :: "ext \<Rightarrow> branch \<Rightarrow> nat list list \<Rightarrow> world \<Rightarrow> (exc + nat option) \<times> world" where
  "stage_into E branch batched_prs w =
     (case staging_setup E branch batched_prs w of
        (Inl e, w1) \<Rightarrow> (Inl e, w1)
      | (Inr (original_heads, staging_state), w1) \<Rightarrow>
          (case stage_batches E branch batched_prs staging_state w1 of
             (Inl e, staging1, w2) \<Rightarrow> (Inl e, w2)
           | (Inr staged, staging1, w2) \<Rightarrow>
               if staged = [] then (Inr None, w2)
               else
                 (case record_heads E original_heads staging1 staging1 [] [] w2 of
                    (Inl e, w3) \<Rightarrow> (Inl e, w3)
                  | (Inr (staging2, heads, commits), w3) \<Rightarrow>
                      (case create_staging (branch_id branch) staged heads commits w3 of
                         (st, w4) \<Rightarrow>
                           (case publish E branch staging2 (participating E w4 branch) w4 of
                              (Inl e, w5) \<Rightarrow> (Inl e, w5)
                            | (Inr u, w5) \<Rightarrow> (Inr (Some st), w5))))))"

section \<open>Selection of the batches\<close>

text \<open>
  \<open>label SIMILAR TO '%:patch-[[:digit:]]+'\<close>: the label ends with \<open>:patch-\<close> and
  one or more digits.  The digits are the longest run of digits at the end, since the
  character before them is a hyphen.
\<close>

definition is_patch_label :: "string \<Rightarrow> bool" where
  "is_patch_label l =
     (takeWhile is_digit (rev l) \<noteq> [] \<and>
      startswith (dropWhile is_digit (rev l)) (rev '':patch-''))"

text \<open>The expression of the \<open>GROUP BY\<close> clause.\<close>

definition group_key :: "pull_request \<Rightarrow> nat \<times> string" where
  "group_key p =
     (pr_target p, if is_patch_label (pr_label p) then text_of_nat (pr_id p) else pr_label p)"

text \<open>The rows that pass the \<open>WHERE\<close> clause, in the order of the table.\<close>

definition candidates :: "world \<Rightarrow> nat list \<Rightarrow> pull_request list" where
  "candidates w branch_ids =
     filter (\<lambda>p. pr_target p \<in> set branch_ids \<and> pr_state p \<noteq> ''merged'' \<and> pr_state p \<noteq> ''closed'')
       (pr_table w)"

text \<open>\<open>GROUP BY\<close>: one group for each value of the key, in the order in which the
  keys first occur.\<close>

definition group_by :: "('a \<Rightarrow> 'k) \<Rightarrow> 'a list \<Rightarrow> 'a list list" where
  "group_by f rows = map (\<lambda>k. filter (\<lambda>r. f r = k) rows) (ordered_set (map f rows))"

text \<open>\<open>HAVING bool_or(state = 'ready') or bool_or(priority = 0)\<close>.\<close>

definition having :: "pull_request list \<Rightarrow> bool" where
  "having g = (list_ex (\<lambda>p. pr_state p = ''ready'') g \<or> list_ex (\<lambda>p. pr_priority p = 0) g)"

text \<open>The selected columns, with \<open>min(id)\<close> for the ordering, and
  \<open>ORDER BY min(priority), min(id)\<close> as an insertion sort.\<close>

definition select_row :: "pull_request list \<Rightarrow> int \<times> nat \<times> nat list" where
  "select_row g = (min_list (map pr_priority g), min_list (map pr_id g), map pr_id g)"

definition row_le :: "int \<times> nat \<times> nat list \<Rightarrow> int \<times> nat \<times> nat list \<Rightarrow> bool" where
  "row_le a b = (fst a < fst b \<or> (fst a = fst b \<and> fst (snd a) \<le> fst (snd b)))"

fun insert_row :: "int \<times> nat \<times> nat list \<Rightarrow> (int \<times> nat \<times> nat list) list \<Rightarrow> (int \<times> nat \<times> nat list) list" where
  "insert_row a [] = [a]"
| "insert_row a (b # bs) = (if row_le a b then a # b # bs else b # insert_row a bs)"

definition order_rows :: "(int \<times> nat \<times> nat list) list \<Rightarrow> (int \<times> nat \<times> nat list) list" where
  "order_rows rows = foldr insert_row rows []"

definition ready_prs :: "world \<Rightarrow> branch \<Rightarrow> (int \<times> nat list) list" where
  "ready_prs w for_branch =
     map (\<lambda>r. (fst r, snd (snd r)))
       (order_rows (map select_row (filter having (group_by group_key (candidates w [branch_id for_branch])))))"

text \<open>\<open>any(prs.mapped('blocked'))\<close>.\<close>

definition any_blocked :: "world \<Rightarrow> nat list \<Rightarrow> bool" where
  "any_blocked w ids = list_ex (\<lambda>i. case browse w i of Some p \<Rightarrow> pr_blocked p | None \<Rightarrow> False) ids"

text \<open>The batches of the first split of the branch, and the deletion of the split.\<close>

definition split_batches :: "world \<Rightarrow> nat \<Rightarrow> nat list list" where
  "split_batches w sp =
     concat (map (\<lambda>s. concat (map (\<lambda>i. map batch_prs (filter (\<lambda>b. batch_id b = i) (batch_table w)))
                               (split_batch_ids s)))
       (filter (\<lambda>s. split_id s = sp) (split_table w)))"

definition unlink_split :: "nat \<Rightarrow> world \<Rightarrow> world" where
  "unlink_split sp w =
     w\<lparr>split_table := filter (\<lambda>s. split_id s \<noteq> sp) (split_table w),
       branch_table := map (\<lambda>b. b\<lparr>split_ids := filter (\<lambda>s. s \<noteq> sp) (split_ids b)\<rparr>) (branch_table w)\<rparr>"

definition try_staging :: "ext \<Rightarrow> branch \<Rightarrow> world \<Rightarrow> (exc + nat option) \<times> world" where
  "try_staging E branch w =
     (if active_staging_id branch \<noteq> None then (Inr None, w)
      else
        (let rows = filter (\<lambda>(p, prs). \<not> any_blocked w prs) (ready_prs w branch)
         in if rows = [] then (Inr None, w)
            else
              (let priority = fst (hd rows)
               in if priority = 0 \<or> priority = 1 then
                    stage_into E branch (map snd (takeWhile (\<lambda>r. fst r = priority) rows)) w
                  else if split_ids branch \<noteq> [] then
                    stage_into E branch (split_batches w (hd (split_ids branch)))
                      (unlink_split (hd (split_ids branch)) w)
                  else
                    stage_into E branch (map snd (takeWhile (\<lambda>r. fst r = priority) rows)) w)))"

section \<open>Frames\<close>

text \<open>What a successful strategy leaves in the table of pull requests: the record of
  \<open>pr\<close> has a new \<open>commits_map\<close>, whose empty key is \<open>h\<close>, and nothing else changed.\<close>

definition staged_as :: "pull_request \<Rightarrow> sha \<Rightarrow> world \<Rightarrow> world \<Rightarrow> bool" where
  "staged_as pr h w w' =
     (\<exists>cm. map_of cm [] = Some h \<and>
           pr_table w' = map (\<lambda>p. if pr_id p = pr_id pr then p\<lparr>pr_commits_map := cm\<rparr> else p) (pr_table w))"

text \<open>The value of a ref of a repository, and what identifies the temporary ref of a
  pull request: its repository and the name of its target branch.\<close>

definition ref_at :: "world \<Rightarrow> nat \<Rightarrow> string \<Rightarrow> sha option" where
  "ref_at w g t = refs (remotes w g) t"

definition pr_key :: "pull_request \<Rightarrow> nat \<times> nat" where
  "pr_key p = (pr_repository p, pr_target p)"

section \<open>A small scenario\<close>

text \<open>
  One project with the branch \<open>master\<close> and two repositories.  Pull request 7 of
  repository 1 has one commit, no merge method, and a cached head \<open>cafef00d\<close> where
  the remote reports \<open>deadbeef\<close>.  Pull request 8 of repository 2 carries the same
  label and is to be rebased and merged.  The collaborators are simple functions: a merge
  conflicts in a repository that has the ref \<open>conflict\<close>, and a rebase moves the
  target even when asked to reset it.
\<close>

definition demo_pr :: pull_request where
  "demo_pr = \<lparr>pr_id = 1, pr_repository = 1, pr_number = 7, pr_target = 1, pr_head = ''cafef00d'',
     pr_label = ''dev:fix-1234'', pr_priority = 2, pr_merge_method = None, pr_squash = True,
     pr_message = ''Title'', pr_state = ''ready'', pr_blocked = False, pr_reviewed_by = None,
     pr_display_name = ''org/one#7'', pr_commits_map = []\<rparr>"

definition demo_pr2 :: pull_request where
  "demo_pr2 = \<lparr>pr_id = 2, pr_repository = 2, pr_number = 8, pr_target = 1, pr_head = ''feedface'',
     pr_label = ''dev:fix-1234'', pr_priority = 2, pr_merge_method = Some Rebase_merge,
     pr_squash = True, pr_message = ''Title'', pr_state = ''ready'', pr_blocked = False,
     pr_reviewed_by = None, pr_display_name = ''org/two#8'', pr_commits_map = []\<rparr>"

definition demo_branch :: branch where
  "demo_branch = \<lparr>branch_id = 1, br_name = ''master'', project_id = 1,
     active_staging_id = None, split_ids = []\<rparr>"

definition demo_identity :: identity where
  "demo_identity = \<lparr>id_name = ''Ann'', id_email = Some ''ann@example.org''\<rparr>"

definition demo_commit :: "sha \<Rightarrow> sha list \<Rightarrow> prcommit" where
  "demo_commit h ps = \<lparr>c_sha = h, c_parents = ps, c_message = ''Title'',
     c_author = demo_identity, c_committer = demo_identity\<rparr>"

definition demo_prdict :: prdict where
  "demo_prdict = \<lparr>pd_commits = 1, pd_base_ref = ''master'', pd_title = ''Title'', pd_body = []\<rparr>"

definition demo_remote :: "nat \<Rightarrow> sha \<Rightarrow> sha \<Rightarrow> remote" where
  "demo_remote number base h =
     \<lparr>refs = [''master'' \<mapsto> base, ''tmp.master'' \<mapsto> base],
      pulls = [number \<mapsto> demo_prdict],
      pull_commits = [number \<mapsto> [demo_commit h [base]]],
      users = Map.empty,
      trees = [base \<mapsto> ''tree0'']\<rparr>"

definition demo_world :: world where
  "demo_world =
     \<lparr>remotes = (\<lambda>r. if r = 1 then demo_remote 7 ''base1'' ''deadbeef''
                      else (demo_remote 8 ''base2'' ''feedface'')
                             \<lparr>refs := [''master'' \<mapsto> ''base2'', ''tmp.master'' \<mapsto> ''base2'',
                                       ''conflict'' \<mapsto> ''yes'']\<rparr>),
      pr_table = [demo_pr, demo_pr2],
      partners = (\<lambda>i. \<lparr>partner_name = ''reviewer'', github_login = ''rev''\<rparr>),
      branch_table = [demo_branch],
      projects = (\<lambda>i. \<lparr>project_name = ''demo'', batch_limit = 8, repo_ids = [1, 2],
                             github_token = ''token''\<rparr>),
      repositories = (\<lambda>r. \<lparr>repo_name = (if r = 1 then ''org/one'' else ''org/two''), repo_project_id = 1\<rparr>),
      batch_table = [],
      split_table = [],
      commit_table = [],
      staging_table = [],
      sent = [],
      requests = 0,
      draws = 0\<rparr>"

definition demo_ext :: ext where
  "demo_ext =
     \<lparr>gh_merge = (\<lambda>r h dest msg.
         if refs r ''conflict'' \<noteq> None then (Inl (GithubMergeError ''Merge conflict''), r)
         else (Inr \<lparr>m_sha = ''merge-'' @ h, m_tree = ''tree-'' @ h\<rparr>,
               r\<lparr>refs := (refs r)(dest \<mapsto> ''merge-'' @ h)\<rparr>)),
      gh_rebase = (\<lambda>r n dest reset cs.
         (Inr (''rebased-'' @ c_sha (last cs), map (\<lambda>c. (c_sha c, ''rebased-'' @ c_sha c)) cs),
          r\<lparr>refs := (refs r)(dest \<mapsto> ''rebased-'' @ c_sha (last cs))\<rparr>)),
      gh_post_commit = (\<lambda>r req. (Inr (''commit-'' @ cr_tree req), r)),
      make_message = (\<lambda>d. if pd_body d = [] then pd_title d else pd_title d @ ''\<newline>\<newline>'' @ pd_body d),
      build_merge_message = (\<lambda>w pr src rel.
         Message (case src of Str m \<Rightarrow> m | PR p \<Rightarrow> pr_message p) []),
      re_search = (\<lambda>pattern m. True),
      re_escape = (\<lambda>t. t),
      github_error_message = (\<lambda>t. None),
      field_string = (\<lambda>f. f),
      differ_compare = (\<lambda>a b. a @ b),
      having_branch = (\<lambda>w r b. True),
      urandom_b64 = (\<lambda>n. ''AAAAAAAAAAAAAAAA''),
      http_get = (\<lambda>n url token. \<lparr>ok = False, raw = []\<rparr>),
      int16 = (\<lambda>t. None),
      decode = Some,
      retries = (\<lambda>delays. length delays - 1)\<rparr>"

text \<open>The same state once the cached head of pull request 7 is the live one.\<close>

definition synced_pr :: pull_request where
  "synced_pr = demo_pr\<lparr>pr_head := ''deadbeef''\<rparr>"

definition synced_world :: world where
  "synced_world = demo_world\<lparr>pr_table := [synced_pr, demo_pr2]\<rparr>"

text \<open>Variants of the state: two live commits for pull request 7; a commit whose
  author has no email; a pull request to be merged whose head has two parents outside
  the pull request.\<close>

definition two_commit_world :: world where
  "two_commit_world =
     demo_world\<lparr>remotes := (remotes demo_world)
        (1 := (remotes demo_world 1)
           \<lparr>pulls := [7 \<mapsto> demo_prdict\<lparr>pd_commits := 2\<rparr>],
            pull_commits := [7 \<mapsto> [demo_commit ''0ddba11'' [''base1''],
                                     demo_commit ''deadbeef'' [''0ddba11'']]]\<rparr>)\<rparr>"

definition no_email_world :: world where
  "no_email_world =
     demo_world\<lparr>remotes := (remotes demo_world)
        (1 := (remotes demo_world 1)
           \<lparr>pull_commits := [7 \<mapsto> [(demo_commit ''deadbeef'' [''base1''])
                                       \<lparr>c_author := \<lparr>id_name = ''Ann'', id_email = None\<rparr>\<rparr>]]\<rparr>)\<rparr>"

definition merge_pr :: pull_request where
  "merge_pr = synced_pr\<lparr>pr_merge_method := Some Merge\<rparr>"

definition two_parents_world :: world where
  "two_parents_world =
     demo_world\<lparr>pr_table := [merge_pr, demo_pr2],
       remotes := (remotes demo_world)
        (1 := (remotes demo_world 1)
           \<lparr>pull_commits := [7 \<mapsto> [demo_commit ''deadbeef'' [''base1'', ''0ther'']]]\<rparr>)\<rparr>"

text \<open>Pull requests for the selection: two with the same \<open>patch\<close> label, two with the
  same ordinary label.\<close>

definition patch_world :: world where
  "patch_world = demo_world\<lparr>pr_table :=
      [demo_pr\<lparr>pr_id := 42, pr_label := ''dev:patch-1''\<rparr>,
       demo_pr2\<lparr>pr_id := 7, pr_label := ''dev:patch-1''\<rparr>,
       demo_pr\<lparr>pr_id := 8\<rparr>,
       demo_pr2\<lparr>pr_id := 9\<rparr>]\<rparr>"

section \<open>Properties\<close>

lemmas str_defs =
  splitlines_def is_linebreak_def is_space_def strip_def lower_def lower_char_def upper_char_def
  capitalize_def is_upper_def is_lower_def is_digit_def ascii_uppercase_def ascii_lowercase_def
  startswith_def endswith_def

lemmas msg_defs =
  from_message_def from_message_loop_def from_message_step_def HEADER_fullmatch_def
  BREAK_fullmatch_def SETEX_UNDERLINE_fullmatch_def is_key_char_def Message_def getlist_def
  header_keys_def trailer_block_def serialize_def ordered_set_def no_trailer_lines_def
  canonical_lines_def

lemmas demo_defs =
  demo_pr_def demo_pr2_def demo_branch_def demo_identity_def demo_commit_def demo_prdict_def
  demo_remote_def demo_world_def demo_ext_def synced_pr_def synced_world_def
  two_commit_world_def no_email_world_def merge_pr_def two_parents_world_def

lemmas stage_defs =
  stage_def select_method_def check_consistency_def sync_reviewer_def dispatch_def
  rebase_family_def missing_email_def target_name_def get_branch_def search_branch_def tmp_ref_def
  pr_write_def write_pr_def write_field_def truthy_def str_of_def
  stage_squash_def stage_rebase_ff_def stage_rebase_merge_def stage_merge_def
  gh_head_def gh_set_ref_def on_remote_def dict_of_def set_commits_map_def is_mentioned_def
  browse_def unlink_pr_def Let_def

lemmas batch_defs =
  stage_batch_def stage_or_rollback_def create_batch_def new_batch_id_def send_def
  mismatch_notification_def format_for_difflib_def str_value_def stage_batches_def
  handle_merge_error_def is_merge_error_def is_unmergeable_def exc_args_def exc_cause_def
  arg_truthy_def arg_text_def failure_reason_def merge_failed_notification_def union_ids_def
  external_parents_text_def missing_email_text_def

subsection \<open>Commit messages\<close>

lemma collapse_blank_nonblank:
  "filter (\<lambda>l. l \<noteq> []) (collapse_blank ls) = filter (\<lambda>l. l \<noteq> []) ls"
  by (induction ls) auto















text \<open>An underline under a heading that is not the title is kept, and the text below a
  break is what is dropped.\<close>

lemma setext_and_break_examples:
  "from_message (PR (demo_pr\<lparr>pr_message := ''Title\<newline>\<newline>Head\<newline>---''\<rparr>)) =
     Inr \<lparr>body = ''Title\<newline>\<newline>Head\<newline>---'', headers = []\<rparr> \<and>
   from_message (PR (demo_pr\<lparr>pr_message := ''Para\<newline>\<newline>more\<newline>\<newline>---\<newline>\<newline>notes''\<rparr>)) =
     Inr \<lparr>body = ''Para\<newline>\<newline>more'', headers = []\<rparr>"
  by (simp add: str_defs msg_defs)

subsection \<open>Selection\<close>

text \<open>
  C5.  For a branch that has an active staging, \<open>try_staging\<close> returns \<open>None\<close> and
  leaves the state as it was, whatever the pull requests are: no batch is selected and
  nothing is staged.
\<close>

theorem C5_active_staging:
  "active_staging_id branch \<noteq> None \<Longrightarrow> try_staging E branch w = (Inr None, w)"
  by (simp add: try_staging_def)

theorem C5_active_staging_witness:
  "try_staging demo_ext (demo_branch\<lparr>active_staging_id := Some 3\<rparr>) demo_world = (Inr None, demo_world)"
  using C5_active_staging [of "demo_branch\<lparr>active_staging_id := Some 3\<rparr>" demo_ext demo_world]
  by simp

subsection \<open>What staging a pull request changes\<close>

lemma find_map_update:
  "(\<And>p. pr_id (f p) = pr_id p) \<Longrightarrow>
   find (\<lambda>p. pr_id p = j) (map (\<lambda>p. if pr_id p = i then f p else p) xs) =
   map_option (\<lambda>p. if j = i then f p else p) (find (\<lambda>p. pr_id p = j) xs)"
  by (induction xs) auto


lemma pr_table_on_remote: "on_remote gh f w = (r, w') \<Longrightarrow> pr_table w' = pr_table w"
  by (auto simp: on_remote_def split: prod.splits)

lemma pr_table_gh_set_ref [simp]: "pr_table (gh_set_ref gh r h w) = pr_table w"
  by (simp add: gh_set_ref_def)

lemma pr_table_set_commits_map:
  "pr_table (set_commits_map pr cm w) =
   map (\<lambda>p. if pr_id p = pr_id pr then p\<lparr>pr_commits_map := cm\<rparr> else p) (pr_table w)"
  by (simp add: set_commits_map_def write_pr_def)

lemma staged_asI:
  "map_of cm [] = Some h \<Longrightarrow> pr_table w1 = pr_table w \<Longrightarrow> staged_as pr h w (set_commits_map pr cm w1)"
  unfolding staged_as_def by (rule exI[of _ cm]) (simp add: pr_table_set_commits_map)

lemma stage_squash_map:
  assumes "stage_squash E pr gh target cs rel w = (Inr h, w')"
  shows "staged_as pr h w w'"
  using assms unfolding stage_squash_def Let_def
  by (auto split: sum.splits prod.splits intro!: staged_asI simp: update_conv'
           dest!: pr_table_on_remote)

lemma stage_rebase_ff_map:
  assumes "stage_rebase_ff E pr gh target cs rel w = (Inr h, w')"
  shows "staged_as pr h w w'"
  using assms unfolding stage_rebase_ff_def Let_def
  by (auto split: sum.splits prod.splits if_splits intro!: staged_asI simp: update_conv'
           dest!: pr_table_on_remote)

lemma stage_rebase_merge_map:
  assumes "stage_rebase_merge E pr gh target cs rel w = (Inr h, w')"
  shows "staged_as pr h w w'"
  using assms unfolding stage_rebase_merge_def Let_def
  by (auto split: sum.splits prod.splits if_splits intro!: staged_asI simp: update_conv'
           dest!: pr_table_on_remote)

lemma stage_merge_map:
  assumes "stage_merge E pr gh target cs rel w = (Inr h, w')"
  shows "staged_as pr h w w'"
  using assms unfolding stage_merge_def Let_def
  by (auto split: sum.splits prod.splits if_splits intro!: staged_asI simp: update_conv'
           dest!: pr_table_on_remote)

lemma dispatch_map:
  "dispatch E m pr gh target cs rel w = (Inr h, w') \<Longrightarrow> staged_as pr h w w'"
  by (cases m)
    (simp_all add: dispatch_def stage_merge_map stage_rebase_merge_map stage_rebase_ff_map
       stage_squash_map)

lemma check_consistency_Inr:
  "check_consistency E pr d h w = (Inr x, w1) \<Longrightarrow> w1 = w"
  unfolding check_consistency_def Let_def
  by (auto split: sum.splits list.splits if_splits)

lemma pr_table_sync_reviewer:
  "sync_reviewer pr gh w = (r, w2) \<Longrightarrow> pr_table w2 = pr_table w"
  unfolding sync_reviewer_def
  by (auto split: option.splits if_splits)

lemma stage_Inr_dispatch:
  assumes "stage E pr gh target rel w = (Inr (m, h), w')"
  shows "\<exists>cs w2. pr_table w2 = pr_table w \<and> dispatch E m pr gh target cs rel w2 = (Inr h, w')"
  using assms unfolding stage_def Let_def
  by (auto split: option.splits if_splits prod.splits sum.splits
           dest!: check_consistency_Inr pr_table_sync_reviewer)

text \<open>
  C3.  Whenever \<open>stage\<close> succeeds with a new head \<open>h\<close>, by whichever of the four
  strategies, the record of the pull request differs from what it was only in its
  \<open>commits_map\<close>, and that dictionary maps the empty key to \<open>h\<close>.
\<close>

theorem C3_commits_map_final:
  assumes "stage E pr gh target related_prs w = (Inr (m, h), w')"
    and "browse w (pr_id pr) = Some p"
  shows "\<exists>cm. browse w' (pr_id pr) = Some (p\<lparr>pr_commits_map := cm\<rparr>) \<and> map_of cm [] = Some h"
proof -
  from stage_Inr_dispatch [OF assms(1)] obtain cs w2 where
    t: "pr_table w2 = pr_table w" and d: "dispatch E m pr gh target cs related_prs w2 = (Inr h, w')"
    by blast
  from dispatch_map [OF d] obtain cm where cm: "map_of cm [] = Some h"
    and tab: "pr_table w' =
      map (\<lambda>q. if pr_id q = pr_id pr then q\<lparr>pr_commits_map := cm\<rparr> else q) (pr_table w2)"
    unfolding staged_as_def by blast
  have "browse w' (pr_id pr) = Some (p\<lparr>pr_commits_map := cm\<rparr>)"
    using assms(2)
      find_map_update [of "\<lambda>q. q\<lparr>pr_commits_map := cm\<rparr>" "pr_id pr" "pr_id pr" "pr_table w"]
    by (simp add: browse_def tab t)
  with cm show ?thesis by blast
qed

lemma synced_stage:
  "fst (stage demo_ext synced_pr 1 ''tmp.master'' [2] synced_world) =
   Inr (Rebase_ff, ''rebased-deadbeef'')"
  by (simp add: stage_defs demo_defs Message_def str_defs serialize_def)

theorem C3_commits_map_final_witness:
  "\<exists>cm. browse (snd (stage demo_ext synced_pr 1 ''tmp.master'' [2] synced_world)) 1 =
          Some (synced_pr\<lparr>pr_commits_map := cm\<rparr>) \<and>
        map_of cm [] = Some ''rebased-deadbeef''"
proof -
  have s: "stage demo_ext synced_pr 1 ''tmp.master'' [2] synced_world =
      (Inr (Rebase_ff, ''rebased-deadbeef''),
       snd (stage demo_ext synced_pr 1 ''tmp.master'' [2] synced_world))"
    using synced_stage by (simp add: prod_eq_iff)
  have b: "browse synced_world (pr_id synced_pr) = Some synced_pr"
    by (simp add: browse_def synced_world_def synced_pr_def demo_pr_def)
  have i: "pr_id synced_pr = 1"
    by (simp add: synced_pr_def demo_pr_def)
  from C3_commits_map_final [OF s b] show ?thesis
    by (simp add: i)
qed

subsection \<open>The choice of the strategy\<close>

lemma remotes_sync_reviewer:
  "sync_reviewer pr gh w = (r, w2) \<Longrightarrow> remotes w2 = remotes w"
  unfolding sync_reviewer_def
  by (auto split: option.splits if_splits)

lemma remotes_check_consistency:
  "check_consistency E pr d h w = (r, w1) \<Longrightarrow> remotes w1 = remotes w"
  unfolding check_consistency_def Let_def
  by (auto split: sum.splits list.splits if_splits simp: unlink_pr_def)

lemma select_method_None:
  "pr_merge_method pr = None \<Longrightarrow> select_method pr n = (if n = 1 then Some Rebase_ff else None)"
  by (simp add: select_method_def)

lemma check_consistency_Inl:
  "check_consistency E pr d h w = (Inl e, w1) \<Longrightarrow>
   e = MissingError \<or> e = ValueError \<or>
   e = Unmergeable [ArgPR (pr_id pr),
         ArgStr ''While staging, found this PR had been retargeted to an un-managed branch.'']"
  unfolding check_consistency_def Let_def target_name_def
  by (auto split: sum.splits list.splits if_splits option.splits)

lemma sync_reviewer_Inl:
  "sync_reviewer pr gh w = (Inl e, w2) \<Longrightarrow> \<exists>l. e = RemoteError l"
  unfolding sync_reviewer_def
  by (auto split: option.splits if_splits)

text \<open>
  C7, as the code has it.  For a pull request with no merge method, whose live data the
  remote returns: with exactly one live commit the method is rebase-fast-forward, and a
  success of \<open>stage\<close> is a success of \<open>stage_rebase_ff\<close>.  With any other number of
  commits no method is selected; \<open>stage\<close> then never succeeds, leaves every remote as it
  is and does not depend on the operations that merge, rebase or create commits.  What it
  raises is the first of: \<open>AttributeError\<close> for more than 50 commits; the remote error
  of the commit list; \<open>Unmergeable\<close> for a commit without an author or committer email;
  \<open>IndexError\<close> for an empty commit list; the exception of the consistency check, which
  is \<open>MissingError\<close>, \<open>ValueError\<close> or the \<open>Unmergeable\<close> of a retargeting to an unmanaged
  branch; \<open>Mismatch\<close>, with the live values written back, when a cached value differs; the
  remote error of the lookup of the reviewer; and \<open>UnboundLocalError\<close> at the dispatch
  when none of these occurs.
\<close>

theorem C7_no_method:
  assumes "pr_merge_method pr = None"
    and "pulls (remotes w gh) (pr_number pr) = Some prdict"
  shows
   "(pd_commits prdict = 1 \<longrightarrow>
       select_method pr (pd_commits prdict) = Some Rebase_ff \<and>
       (\<forall>m h w'. stage E pr gh target rel w = (Inr (m, h), w') \<longrightarrow>
           m = Rebase_ff \<and>
           (\<exists>cs w2. stage_rebase_ff E pr gh target cs rel w2 = (Inr h, w')))) \<and>
    (pd_commits prdict \<noteq> 1 \<longrightarrow>
       select_method pr (pd_commits prdict) = None \<and>
       (\<exists>e. fst (stage E pr gh target rel w) = Inl e) \<and>
       remotes (snd (stage E pr gh target rel w)) = remotes w \<and>
       stage (E\<lparr>gh_merge := a, gh_rebase := b, gh_post_commit := c\<rparr>) pr gh target rel w =
         stage E pr gh target rel w \<and>
       stage E pr gh target rel w =
         (if 50 < pd_commits prdict then (Inl AttributeError, w)
          else
            (case pull_commits (remotes w gh) (pr_number pr) of
               None \<Rightarrow> (Inl (RemoteError ''commits''), w)
             | Some pr_commits \<Rightarrow>
                 (case find missing_email pr_commits of
                    Some bad \<Rightarrow>
                      (Inl (Unmergeable [ArgPR (pr_id pr), ArgStr (missing_email_text bad)]), w)
                  | None \<Rightarrow>
                      if pr_commits = [] then (Inl IndexError, w)
                      else
                        (case check_consistency E pr prdict (c_sha (last pr_commits)) w of
                           (Inl e, w1) \<Rightarrow> (Inl e, w1)
                         | (Inr (invalid, diff), w1) \<Rightarrow>
                             if invalid \<noteq> [] then
                               (Inl (Mismatch invalid diff),
                                pr_write (pr_id pr)
                                  (invalid @ [(''state'', VStr ''opened''),
                                              (''head'', VStr (c_sha (last pr_commits)))]) w1)
                             else
                               (case sync_reviewer pr gh w1 of
                                  (Inl e, w2) \<Rightarrow> (Inl e, w2)
                                | (Inr u, w2) \<Rightarrow> (Inl UnboundLocalError, w2)))))) \<and>
       (\<forall>h e w1. check_consistency E pr prdict h w = (Inl e, w1) \<longrightarrow>
          e = MissingError \<or> e = ValueError \<or>
          e = Unmergeable [ArgPR (pr_id pr),
                ArgStr ''While staging, found this PR had been retargeted to an un-managed branch.'']) \<and>
       (\<forall>w1 e w2. sync_reviewer pr gh w1 = (Inl e, w2) \<longrightarrow> (\<exists>l. e = RemoteError l)) \<and>
       (50 < pd_commits prdict \<longrightarrow> stage E pr gh target rel w = (Inl AttributeError, w)) \<and>
       (pd_commits prdict \<le> 50 \<and>
        pull_commits (remotes w gh) (pr_number pr) = Some cs \<and> cs \<noteq> [] \<and>
        find missing_email cs = None \<and>
        check_consistency E pr prdict (c_sha (last cs)) w = (Inr ([], d), w) \<and>
        fst (sync_reviewer pr gh w) = Inr () \<longrightarrow>
          fst (stage E pr gh target rel w) = Inl UnboundLocalError))"
proof (intro conjI impI allI)
  assume one: "pd_commits prdict = 1"
  then show sel: "select_method pr (pd_commits prdict) = Some Rebase_ff"
    using assms(1) by (simp add: select_method_None)
  fix m h w'
  assume s: "stage E pr gh target rel w = (Inr (m, h), w')"
  then show "m = Rebase_ff"
    using assms sel unfolding stage_def Let_def
    by (auto split: option.splits if_splits prod.splits sum.splits)
  from s show "\<exists>cs w2. stage_rebase_ff E pr gh target cs rel w2 = (Inr h, w')"
    using assms sel unfolding stage_def Let_def
    by (auto split: option.splits if_splits prod.splits sum.splits simp: dispatch_def)
next
  assume ne: "pd_commits prdict \<noteq> 1"
  then show sel: "select_method pr (pd_commits prdict) = None"
    using assms(1) by (simp add: select_method_None)
  show "\<exists>e. fst (stage E pr gh target rel w) = Inl e"
    using assms sel unfolding stage_def Let_def
    by (auto split: option.splits if_splits prod.splits sum.splits)
  show "remotes (snd (stage E pr gh target rel w)) = remotes w"
    using assms sel unfolding stage_def Let_def
    by (auto split: option.splits if_splits prod.splits sum.splits
          simp: pr_write_def write_pr_def
          dest!: remotes_check_consistency remotes_sync_reviewer)
  show "stage (E\<lparr>gh_merge := a, gh_rebase := b, gh_post_commit := c\<rparr>) pr gh target rel w =
         stage E pr gh target rel w"
  proof -
    have cc: "check_consistency (E\<lparr>gh_merge := a, gh_rebase := b, gh_post_commit := c\<rparr>) =
        check_consistency E"
      by (intro ext) (simp add: check_consistency_def)
    show ?thesis
      unfolding stage_def assms(2) option.case Let_def sel cc by simp
  qed
  show "stage E pr gh target rel w =
         (if 50 < pd_commits prdict then (Inl AttributeError, w)
          else
            (case pull_commits (remotes w gh) (pr_number pr) of
               None \<Rightarrow> (Inl (RemoteError ''commits''), w)
             | Some pr_commits \<Rightarrow>
                 (case find missing_email pr_commits of
                    Some bad \<Rightarrow>
                      (Inl (Unmergeable [ArgPR (pr_id pr), ArgStr (missing_email_text bad)]), w)
                  | None \<Rightarrow>
                      if pr_commits = [] then (Inl IndexError, w)
                      else
                        (case check_consistency E pr prdict (c_sha (last pr_commits)) w of
                           (Inl e, w1) \<Rightarrow> (Inl e, w1)
                         | (Inr (invalid, diff), w1) \<Rightarrow>
                             if invalid \<noteq> [] then
                               (Inl (Mismatch invalid diff),
                                pr_write (pr_id pr)
                                  (invalid @ [(''state'', VStr ''opened''),
                                              (''head'', VStr (c_sha (last pr_commits)))]) w1)
                             else
                               (case sync_reviewer pr gh w1 of
                                  (Inl e, w2) \<Rightarrow> (Inl e, w2)
                                | (Inr u, w2) \<Rightarrow> (Inl UnboundLocalError, w2))))))"
    unfolding stage_def assms(2) option.case Let_def sel
    by (simp split: option.splits if_splits)
  show "e = MissingError \<or> e = ValueError \<or>
          e = Unmergeable [ArgPR (pr_id pr),
                ArgStr ''While staging, found this PR had been retargeted to an un-managed branch.'']"
    if "check_consistency E pr prdict h w = (Inl e, w1)" for h e w1
    using that by (rule check_consistency_Inl)
  show "\<exists>l. e = RemoteError l" if "sync_reviewer pr gh w1 = (Inl e, w2)" for w1 e w2
    using that by (rule sync_reviewer_Inl)
  show "stage E pr gh target rel w = (Inl AttributeError, w)" if "50 < pd_commits prdict"
    using that assms sel unfolding stage_def Let_def by simp
  show "fst (stage E pr gh target rel w) = Inl UnboundLocalError"
    if "pd_commits prdict \<le> 50 \<and>
        pull_commits (remotes w gh) (pr_number pr) = Some cs \<and> cs \<noteq> [] \<and>
        find missing_email cs = None \<and>
        check_consistency E pr prdict (c_sha (last cs)) w = (Inr ([], d), w) \<and>
        fst (sync_reviewer pr gh w) = Inr ()"
    using that assms sel unfolding stage_def Let_def
    by (auto split: option.splits if_splits prod.splits sum.splits)
qed

text \<open>The theorem at pull request 7 with its head in sync: staged by
  rebase-fast-forward with its one commit, and failing at the dispatch with two.\<close>

theorem C7_no_method_witness:
  "select_method synced_pr 1 = Some Rebase_ff \<and>
   fst (stage demo_ext synced_pr 1 ''tmp.master'' [2] synced_world) = Inr (Rebase_ff, ''rebased-deadbeef'') \<and>
   select_method synced_pr 2 = None \<and>
   fst (stage demo_ext synced_pr 1 ''tmp.master'' []
          (two_commit_world\<lparr>pr_table := [synced_pr, demo_pr2]\<rparr>)) = Inl UnboundLocalError"
proof -
  let ?w2 = "two_commit_world\<lparr>pr_table := [synced_pr, demo_pr2]\<rparr>"
  let ?cs = "[demo_commit ''0ddba11'' [''base1''], demo_commit ''deadbeef'' [''0ddba11'']]"
  have m: "pr_merge_method synced_pr = None"
    by (simp add: demo_defs)
  have p1: "pulls (remotes synced_world 1) (pr_number synced_pr) = Some demo_prdict"
    by (simp add: demo_defs)
  have p2: "pulls (remotes ?w2 1) (pr_number synced_pr) = Some (demo_prdict\<lparr>pd_commits := 2\<rparr>)"
    by (simp add: demo_defs)
  have c: "pd_commits (demo_prdict\<lparr>pd_commits := 2\<rparr>) \<le> 50 \<and>
        pull_commits (remotes ?w2 1) (pr_number synced_pr) = Some ?cs \<and> ?cs \<noteq> [] \<and>
        find missing_email ?cs = None \<and>
        check_consistency demo_ext synced_pr (demo_prdict\<lparr>pd_commits := 2\<rparr>) (c_sha (last ?cs)) ?w2 =
          (Inr ([], []), ?w2) \<and>
        fst (sync_reviewer synced_pr 1 ?w2) = Inr ()"
    by (simp add: demo_defs stage_defs)
  have one: "pd_commits demo_prdict = 1" and two: "pd_commits (demo_prdict\<lparr>pd_commits := 2\<rparr>) \<noteq> 1"
    by (simp_all add: demo_defs)
  from C7_no_method [OF m p1, where E = demo_ext and target = "''tmp.master''" and rel = "[2]",
      THEN conjunct1] one
  have "select_method synced_pr 1 = Some Rebase_ff" by simp
  moreover note synced_stage
  moreover have "select_method synced_pr 2 = None \<and>
    fst (stage demo_ext synced_pr 1 ''tmp.master'' [] ?w2) = Inl UnboundLocalError"
  proof -
    from C7_no_method [OF m p2, where E = demo_ext and target = "''tmp.master''" and rel = "[]"
        and cs = ?cs and d = "[]", THEN conjunct2] two
    have k: "select_method synced_pr (pd_commits (demo_prdict\<lparr>pd_commits := 2\<rparr>)) = None"
      and u: "pd_commits (demo_prdict\<lparr>pd_commits := 2\<rparr>) \<le> 50 \<and>
        pull_commits (remotes ?w2 1) (pr_number synced_pr) = Some ?cs \<and> ?cs \<noteq> [] \<and>
        find missing_email ?cs = None \<and>
        check_consistency demo_ext synced_pr (demo_prdict\<lparr>pd_commits := 2\<rparr>) (c_sha (last ?cs)) ?w2 =
          (Inr ([], []), ?w2) \<and>
        fst (sync_reviewer synced_pr 1 ?w2) = Inr () \<longrightarrow>
          fst (stage demo_ext synced_pr 1 ''tmp.master'' [] ?w2) = Inl UnboundLocalError"
      by blast+
    from u c have "fst (stage demo_ext synced_pr 1 ''tmp.master'' [] ?w2) = Inl UnboundLocalError"
      by (rule mp)
    with k show ?thesis by (simp add: demo_defs)
  qed
  ultimately show ?thesis by simp
qed

text \<open>
  C7 as stated fails: with no method, two live commits and a stale cached head, staging
  does not fail as a configuration error; it raises \<open>Mismatch\<close>.
\<close>

theorem C7_counterexample:
  "pr_merge_method demo_pr = None \<and>
   map_option pd_commits (pulls (remotes two_commit_world 1) (pr_number demo_pr)) = Some 2 \<and>
   fst (stage demo_ext demo_pr 1 ''tmp.master'' [] two_commit_world) =
     Inl (Mismatch [(''head'', VStr ''deadbeef'')] [(''Head'', VStr ''cafef00d'', VStr ''deadbeef'')])"
  by (simp add: stage_defs demo_defs)

subsection \<open>The consistency check\<close>

lemma pr_id_write_field [simp]: "pr_id (write_field p kv) = pr_id p"
  by (cases kv; cases "snd kv") (auto simp: write_field_def)

lemma pr_id_foldl_write_field [simp]: "pr_id (foldl write_field p kvs) = pr_id p"
  by (induction kvs arbitrary: p) auto


lemma remotes_pr_write [simp]: "remotes (pr_write i vals w) = remotes w"
  by (simp add: pr_write_def write_pr_def)




text \<open>The chained comparison \<open>pr.squash != commits == 1\<close> never fires for a pull
  request with several commits: with two live commits and the squash flag on, nothing is
  found to differ, and the pull request is merged.\<close>

lemma squash_flag_not_checked:
  "pr_squash merge_pr \<and>
   fst (stage demo_ext merge_pr 1 ''tmp.master'' []
          (two_commit_world\<lparr>pr_table := [merge_pr, demo_pr2]\<rparr>)) = Inr (Merge, ''merge-deadbeef'')"
  by (simp add: stage_defs demo_defs Message_def str_defs serialize_def)

text \<open>The batch of pull request 7 alone: the mismatch is notified, no batch is created,
  the staging state and the refs are as before.\<close>

lemma mismatch_batch_scenario:
  "(case stage_batch demo_ext [1] [(1, ''base1''), (2, ''base2'')] demo_world of
      (r, st, w') \<Rightarrow> (r, st, remotes w' = remotes demo_world, map n_template (sent w'), batch_table w')) =
   (Inr [], [(1, ''base1''), (2, ''base2'')], True, [''runbot_merge.pr.staging.mismatch''], [])"
  by (simp add: stage_defs demo_defs batch_defs fun_eq_iff)

subsection \<open>Failures of a batch\<close>

text \<open>An \<open>Unmergeable\<close> whose first argument is the pull request: its state becomes
  \<open>error\<close> and the failure is notified.\<close>

lemma unmergeable_with_pr_handled:
  "browse w i = Some pr \<Longrightarrow>
   handle_merge_error E staged (Unmergeable (ArgPR i # args)) w =
     (None, send (merge_failed_notification pr (failure_reason E w (Unmergeable (ArgPR i # args))))
              (pr_write i [(''state'', VStr ''error'')] w))"
  by (simp add: handle_merge_error_def is_unmergeable_def exc_args_def)

text \<open>
  C4 fails on the code for a head with several parents outside the pull request.  Pull
  request 7 is to be merged and its head has the parents \<open>base1\<close> and \<open>0ther\<close>, neither
  of them a commit of the pull request.  \<open>stage_merge\<close> raises \<open>Unmergeable\<close> with
  the text as its only argument; the handler of \<open>stage_batches\<close> takes that text for the
  pull request, and \<open>AttributeError\<close> leaves \<open>stage_batches\<close>: no state is set to
  \<open>error\<close> and no notification is sent.
\<close>

theorem C4_multi_external_parent:
  "(case stage_batches demo_ext demo_branch [[1]] [(1, ''base1''), (2, ''base2'')] two_parents_world of
      (r, st, w') \<Rightarrow> (r, map pr_state (pr_table w'), sent w')) =
   (Inl AttributeError, [''ready'', ''ready''], [])"
  by (simp add: stage_defs demo_defs batch_defs)

subsection \<open>Visibility\<close>

lemma backoff_all_failures:
  "(\<forall>n. \<not> ok (http_get E n (visibility_url (repo_name (repositories w repo))) token)) \<Longrightarrow>
   backoff k (wait_for_visibility E repo refname h token) w =
     (Inl TimeoutError, w\<lparr>requests := requests w + Suc k\<rparr>)"
proof (induction k arbitrary: w)
  case 0
  then show ?case
    by (simp add: wait_for_visibility_def check_visibility_def Let_def)
next
  case (Suc k)
  let ?w = "w\<lparr>requests := Suc (requests w)\<rparr>"
  have one: "wait_for_visibility E repo refname h token w = (Inl TimeoutError, ?w)"
    using Suc.prems by (simp add: wait_for_visibility_def check_visibility_def Let_def)
  have "\<forall>n. \<not> ok (http_get E n (visibility_url (repo_name (repositories ?w repo))) token)"
    using Suc.prems by simp
  from Suc.IH [OF this] show ?case
    by (simp add: one)
qed

text \<open>
  C10.  When the request for the ref advertisement gets a response that is not a success,
  \<open>check_visibility\<close> returns \<open>False\<close> without reading the body, so that no error of
  the framing can be raised.  If every request fails so, each attempt of the retry
  schedule ends in \<open>TimeoutError\<close>, and after the last retry that is what the publish
  step raises, however many retries the schedule has.
\<close>

theorem C10_http_failure:
  assumes "\<forall>n. \<not> ok (http_get E n (visibility_url (repo_name (repositories w repo))) token)"
  shows "check_visibility E repo branch_name expected_head token w =
           (Inr False, w\<lparr>requests := Suc (requests w)\<rparr>) \<and>
         backoff k (wait_for_visibility E repo branch_name expected_head token) w =
           (Inl TimeoutError, w\<lparr>requests := requests w + Suc k\<rparr>)"
  using assms backoff_all_failures [OF assms]
  by (simp add: check_visibility_def Let_def)

theorem C10_http_failure_witness:
  "check_visibility demo_ext 1 ''staging.master'' ''rebased-deadbeef'' ''token'' demo_world =
     (Inr False, demo_world\<lparr>requests := 1\<rparr>) \<and>
   backoff (retries demo_ext WAIT_FOR_VISIBILITY)
     (wait_for_visibility demo_ext 1 ''staging.master'' ''rebased-deadbeef'' ''token'') demo_world =
     (Inl TimeoutError, demo_world\<lparr>requests := 4\<rparr>)"
proof -
  have a: "\<forall>n. \<not> ok (http_get demo_ext n (visibility_url (repo_name (repositories demo_world 1))) ''token'')"
    by (simp add: demo_ext_def)
  have r: "retries demo_ext WAIT_FOR_VISIBILITY = 3" "requests demo_world = 0"
    by (simp_all add: demo_ext_def WAIT_FOR_VISIBILITY_def demo_world_def)
  from C10_http_failure [OF a, of "''staging.master''" "''rebased-deadbeef''" 3] show ?thesis
    by (simp add: r)
qed

text \<open>By contrast, an exception raised while the body of a successful response is read
  leaves at the first attempt.\<close>

lemma protocol_error_not_retried:
  assumes "ok (http_get E (requests w) (visibility_url (repo_name (repositories w repo))) token)"
    and "scan_refs (parse_refs_smart E (raw (http_get E (requests w)
            (visibility_url (repo_name (repositories w repo))) token))) refname h = Inl e"
    and "e \<noteq> TimeoutError"
  shows "backoff k (wait_for_visibility E repo refname h token) w =
     (Inl e, w\<lparr>requests := Suc (requests w)\<rparr>)"
  using assms by (cases k) (simp_all add: wait_for_visibility_def check_visibility_def Let_def)

subsection \<open>The key of the grouping\<close>

lemma text_of_nat_nonempty: "text_of_nat n \<noteq> []"
  by (subst text_of_nat.simps) simp

lemma digit_char_inj: "d < 10 \<Longrightarrow> d' < 10 \<Longrightarrow> digit_char d = digit_char d' \<Longrightarrow> d = d'"
proof -
  assume a: "d < 10" "d' < 10" "digit_char d = digit_char d'"
  have "distinct ''0123456789''" by simp
  then show ?thesis using a unfolding digit_char_def
    by (simp add: nth_eq_iff_index_eq)
qed

lemma text_of_nat_inj: "text_of_nat n = text_of_nat m \<Longrightarrow> n = m"
proof (induction n arbitrary: m rule: text_of_nat.induct)
  case (1 n)
  show ?case
  proof (cases "n < 10")
    case True
    then have tn: "text_of_nat n = [digit_char n]" by (subst text_of_nat.simps) simp
    show ?thesis
    proof (cases "m < 10")
      case mt: True
      then have "text_of_nat m = [digit_char m]" by (subst text_of_nat.simps) simp
      with tn "1.prems" True mt show ?thesis by (simp add: digit_char_inj)
    next
      case False
      then have "text_of_nat m = text_of_nat (m div 10) @ [digit_char (m mod 10)]"
        by (subst text_of_nat.simps) simp
      with tn "1.prems" text_of_nat_nonempty [of "m div 10"] show ?thesis by simp
    qed
  next
    case False
    then have tn: "text_of_nat n = text_of_nat (n div 10) @ [digit_char (n mod 10)]"
      by (subst text_of_nat.simps) simp
    show ?thesis
    proof (cases "m < 10")
      case True
      then have "text_of_nat m = [digit_char m]" by (subst text_of_nat.simps) simp
      with tn "1.prems" text_of_nat_nonempty [of "n div 10"] show ?thesis by simp
    next
      case mf: False
      then have "text_of_nat m = text_of_nat (m div 10) @ [digit_char (m mod 10)]"
        by (subst text_of_nat.simps) simp
      with tn "1.prems" have e: "text_of_nat (n div 10) = text_of_nat (m div 10)"
        "digit_char (n mod 10) = digit_char (m mod 10)" by simp_all
      from "1.IH" [OF False e(1)] have "n div 10 = m div 10" .
      moreover from e(2) have "n mod 10 = m mod 10" by (simp add: digit_char_inj)
      ultimately show ?thesis by (metis div_mult_mod_eq)
    qed
  qed
qed

lemma set_ordered_set [simp]: "set (ordered_set xs) = set xs"
  by (simp add: ordered_set_def)

lemma set_insert_row [simp]: "set (insert_row a bs) = insert a (set bs)"
  by (induction bs) auto

lemma set_order_rows [simp]: "set (order_rows rows) = set rows"
  unfolding order_rows_def by (induction rows) auto

lemma ready_prs_row:
  "row \<in> set (ready_prs w b) \<Longrightarrow>
   \<exists>k. k \<in> group_key ` set (candidates w [branch_id b]) \<and>
       having (filter (\<lambda>r. group_key r = k) (candidates w [branch_id b])) \<and>
       row = (min_list (map pr_priority (filter (\<lambda>r. group_key r = k) (candidates w [branch_id b]))),
              map pr_id (filter (\<lambda>r. group_key r = k) (candidates w [branch_id b])))"
  unfolding ready_prs_def group_by_def select_row_def
  by auto

lemma ready_prs_rowI:
  "p \<in> set (candidates w [branch_id b]) \<Longrightarrow>
   having (filter (\<lambda>r. group_key r = group_key p) (candidates w [branch_id b])) \<Longrightarrow>
   (min_list (map pr_priority (filter (\<lambda>r. group_key r = group_key p) (candidates w [branch_id b]))),
    map pr_id (filter (\<lambda>r. group_key r = group_key p) (candidates w [branch_id b])))
   \<in> set (ready_prs w b)"
  unfolding ready_prs_def group_by_def select_row_def
  by (auto simp: image_iff intro!: bexI[of _ "group_key p"] )

lemma distinct_candidates:
  "distinct (map pr_id (pr_table w)) \<Longrightarrow> distinct (map pr_id (candidates w bs))"
  unfolding candidates_def by (simp add: distinct_map_filter)

lemma id_in_group:
  assumes d: "distinct (map pr_id pool)" and p: "p \<in> set pool"
  shows "pr_id p \<in> set (map pr_id (filter (\<lambda>r. f r = k) pool)) \<longleftrightarrow> f p = k"
proof
  assume "pr_id p \<in> set (map pr_id (filter (\<lambda>r. f r = k) pool))"
  then obtain r where r: "r \<in> set pool" "f r = k" "pr_id r = pr_id p" by auto
  with d p have "r = p" by (meson distinct_map inj_onD)
  with r show "f p = k" by simp
next
  assume "f p = k" with p show "pr_id p \<in> set (map pr_id (filter (\<lambda>r. f r = k) pool))" by auto
qed

lemma filter_singleton:
  assumes d: "distinct (map pr_id pool)" and p: "p \<in> set pool"
    and only: "\<forall>r\<in>set pool. f r = f p \<longrightarrow> r = p"
  shows "filter (\<lambda>r. f r = f p) pool = [p]"
proof -
  have dp: "distinct pool" using d by (simp add: distinct_map)
  have "filter (\<lambda>r. f r = f p) pool = filter (\<lambda>r. r = p) pool"
    using only by (intro filter_cong) auto
  also have "\<dots> = [p]"
    using dp p by (induction pool) (auto simp: filter_id_conv filter_empty_conv)
  finally show ?thesis .
qed

text \<open>The grouping for one candidate \<open>p\<close>, with the condition on the key of a
  \<open>patch\<close> label written out: no candidate has the decimal text of the identifier of
  \<open>p\<close> as its label.\<close>

lemma grouping_by_key:
  assumes d: "distinct (map pr_id (pr_table w))"
    and p: "p \<in> set (candidates w [branch_id b])"
  shows
   "(\<forall>q row. q \<in> set (candidates w [branch_id b]) \<and> pr_label q = pr_label p \<and>
        \<not> is_patch_label (pr_label p) \<and> row \<in> set (ready_prs w b) \<longrightarrow>
        (pr_id p \<in> set (snd row) \<longleftrightarrow> pr_id q \<in> set (snd row))) \<and>
    (is_patch_label (pr_label p) \<and>
     (\<forall>q\<in>set (candidates w [branch_id b]). pr_label q \<noteq> text_of_nat (pr_id p)) \<longrightarrow>
        (\<forall>row\<in>set (ready_prs w b). pr_id p \<in> set (snd row) \<longrightarrow> snd row = [pr_id p]) \<and>
        (pr_state p = ''ready'' \<or> pr_priority p = 0 \<longrightarrow>
           (pr_priority p, [pr_id p]) \<in> set (ready_prs w b)))"
proof (intro conjI allI impI ballI)
  let ?pool = "candidates w [branch_id b]"
  have dc: "distinct (map pr_id ?pool)" using d by (rule distinct_candidates)
  have tgt: "\<And>r. r \<in> set ?pool \<Longrightarrow> pr_target r = branch_id b"
    by (simp add: candidates_def)
  {
    fix q row
    assume a: "q \<in> set ?pool \<and> pr_label q = pr_label p \<and> \<not> is_patch_label (pr_label p) \<and>
        row \<in> set (ready_prs w b)"
    then have k: "group_key q = group_key p"
      using tgt [of q] tgt [OF p] by (simp add: group_key_def)
    from a ready_prs_row obtain k where
      row: "snd row = map pr_id (filter (\<lambda>r. group_key r = k) ?pool)" by fastforce
    show "pr_id p \<in> set (snd row) \<longleftrightarrow> pr_id q \<in> set (snd row)"
      unfolding row using id_in_group [OF dc p, of group_key k] id_in_group [OF dc, of q group_key k] a k
      by simp
  }
  assume a: "is_patch_label (pr_label p) \<and> (\<forall>q\<in>set ?pool. pr_label q \<noteq> text_of_nat (pr_id p))"
  have only: "\<forall>r\<in>set ?pool. group_key r = group_key p \<longrightarrow> r = p"
  proof (intro ballI impI)
    fix r assume r: "r \<in> set ?pool" and e: "group_key r = group_key p"
    from a r have nl: "pr_label r \<noteq> text_of_nat (pr_id p)" by blast
    from e a nl have "text_of_nat (pr_id r) = text_of_nat (pr_id p)"
      by (auto simp: group_key_def split: if_splits)
    then have "pr_id r = pr_id p" by (rule text_of_nat_inj)
    with dc r p show "r = p" by (meson distinct_map inj_onD)
  qed
  have g: "filter (\<lambda>r. group_key r = group_key p) ?pool = [p]"
    by (rule filter_singleton [OF dc p only])
  {
    fix row assume row: "row \<in> set (ready_prs w b)" and i: "pr_id p \<in> set (snd row)"
    from ready_prs_row [OF row] obtain k where
      r: "snd row = map pr_id (filter (\<lambda>r. group_key r = k) ?pool)" by fastforce
    with i id_in_group [OF dc p, of group_key k] have "k = group_key p" by simp
    with r g show "snd row = [pr_id p]" by simp
  }
  assume "pr_state p = ''ready'' \<or> pr_priority p = 0"
  then have "having [p]" by (auto simp: having_def)
  with ready_prs_rowI [OF p] g show "(pr_priority p, [pr_id p]) \<in> set (ready_prs w b)"
    by simp
qed

lemma digit_char_digit: "d < 10 \<Longrightarrow> digit_char d \<in> set ''0123456789''"
  unfolding digit_char_def by (rule nth_mem) simp

lemma text_of_nat_digits: "set (text_of_nat n) \<subseteq> set ''0123456789''"
proof (induction n rule: text_of_nat.induct)
  case (1 n)
  show ?case
  proof (cases "n < 10")
    case True
    then have "text_of_nat n = [digit_char n]" by (subst text_of_nat.simps) simp
    with digit_char_digit [OF True] show ?thesis by simp
  next
    case False
    then have "text_of_nat n = text_of_nat (n div 10) @ [digit_char (n mod 10)]"
      by (subst text_of_nat.simps) simp
    moreover have "digit_char (n mod 10) \<in> set ''0123456789''"
      by (rule digit_char_digit) simp
    ultimately show ?thesis using "1.IH" [OF False] by simp
  qed
qed

lemma text_of_nat_no_colon: "CHR '':'' \<notin> set (text_of_nat n)"
  using text_of_nat_digits [of n] by auto

text \<open>
  C6.  The identifiers of the pull requests are distinct, every candidate of the branch
  has a label of the form \<open>owner:branch\<close> (it contains a colon), and \<open>p\<close> is a
  candidate.  If the label of \<open>p\<close> is not a \<open>patch\<close> label, every candidate with the
  same label is in exactly the rows of \<open>ready_prs\<close> that \<open>p\<close> is in.  If it is a
  \<open>patch\<close> label, a row with \<open>p\<close> has \<open>p\<close> alone, whatever the labels of the other
  candidates are, and that row is there when \<open>p\<close> is ready or has priority 0.
\<close>

theorem C6_grouping:
  assumes d: "distinct (map pr_id (pr_table w))"
    and colon: "\<forall>q\<in>set (candidates w [branch_id b]). CHR '':'' \<in> set (pr_label q)"
    and p: "p \<in> set (candidates w [branch_id b])"
  shows
   "(\<forall>q row. q \<in> set (candidates w [branch_id b]) \<and> pr_label q = pr_label p \<and>
        \<not> is_patch_label (pr_label p) \<and> row \<in> set (ready_prs w b) \<longrightarrow>
        (pr_id p \<in> set (snd row) \<longleftrightarrow> pr_id q \<in> set (snd row))) \<and>
    (is_patch_label (pr_label p) \<longrightarrow>
        (\<forall>row\<in>set (ready_prs w b). pr_id p \<in> set (snd row) \<longrightarrow> snd row = [pr_id p]) \<and>
        (pr_state p = ''ready'' \<or> pr_priority p = 0 \<longrightarrow>
           (pr_priority p, [pr_id p]) \<in> set (ready_prs w b)))"
proof -
  have n: "\<forall>q\<in>set (candidates w [branch_id b]). pr_label q \<noteq> text_of_nat (pr_id p)"
    using colon text_of_nat_no_colon by metis
  from grouping_by_key [OF d p] n show ?thesis by blast
qed

text \<open>The theorem at the pull requests 8 and 9, which share a label, and at 42, whose
  \<open>patch\<close> label 7 has too.\<close>

theorem C6_grouping_witness:
  "(8 \<in> set [8, 9] \<longleftrightarrow> 9 \<in> set [8, 9::nat]) \<and>
   (2, [8, 9]) \<in> set (ready_prs patch_world demo_branch) \<and>
   (2, [42]) \<in> set (ready_prs patch_world demo_branch)"
proof -
  let ?pool = "candidates patch_world [branch_id demo_branch]"
  let ?p8 = "demo_pr\<lparr>pr_id := 8\<rparr>" and ?p9 = "demo_pr2\<lparr>pr_id := 9\<rparr>"
  let ?p42 = "demo_pr\<lparr>pr_id := 42, pr_label := ''dev:patch-1''\<rparr>"
  have d: "distinct (map pr_id (pr_table patch_world))"
    by (simp add: patch_world_def demo_defs)
  have pool: "?pool = pr_table patch_world"
    by (simp add: candidates_def patch_world_def demo_defs)
  have c: "\<forall>q\<in>set ?pool. CHR '':'' \<in> set (pr_label q)"
    unfolding pool by (simp add: patch_world_def demo_defs)
  have m: "?p8 \<in> set ?pool" "?p9 \<in> set ?pool" "?p42 \<in> set ?pool"
    unfolding pool by (simp_all add: patch_world_def)
  have l: "pr_label ?p9 = pr_label ?p8" "\<not> is_patch_label (pr_label ?p8)"
    "is_patch_label (pr_label ?p42)"
    by (simp_all add: demo_defs is_patch_label_def str_defs)
  have r: "(2, [8, 9]) \<in> set (ready_prs patch_world demo_branch)"
    by (simp add: ready_prs_def group_by_def ordered_set_def candidates_def patch_world_def demo_defs
          group_key_def is_patch_label_def str_defs having_def select_row_def order_rows_def row_le_def
          text_of_nat.simps digit_char_def)
  have s: "pr_state ?p42 = ''ready''" "pr_priority ?p42 = 2" "pr_id ?p42 = 42" "pr_id ?p8 = 8"
    "pr_id ?p9 = 9"
    by (simp_all add: demo_defs)
  from C6_grouping [OF d c m(1), THEN conjunct1, rule_format, of ?p9 "(2, [8, 9])"] m(2) l r
  have "8 \<in> set [8, 9] \<longleftrightarrow> 9 \<in> set [8, 9::nat]"
    by (simp add: s)
  moreover from C6_grouping [OF d c m(3), THEN conjunct2] l(3)
  have "(2, [42]) \<in> set (ready_prs patch_world demo_branch)"
    by (simp add: s)
  ultimately show ?thesis using r by simp
qed

end
